theory Spec2Isabelle
  imports Complex_Main
begin

section \<open>Numbers and vectors\<close>

text \<open>
  The package computes on \<open>float64\<close>. The development reads every \<open>float64\<close> as a
  real number (exact arithmetic): rounding, infinities and NaN are outside the model.
  Go's float division by zero does not panic, HOL's \<open>x / 0\<close> is \<open>0\<close>; a theorem whose
  truth depends on a quotient carries the hypothesis that the divisor is not zero.

  \<open>pixel.Vec\<close> is the two-dimensional vector of the graphics library the package imports.
  Its methods are the usual ones: \<open>Len\<close> is the Euclidean norm (\<open>math.Hypot\<close>),
  \<open>Unit\<close> returns \<open>Vec{1, 0}\<close> for the zero vector and \<open>u.Scaled(1 / u.Len())\<close>
  otherwise, \<open>Rotated\<close> is the rotation by an angle in radians.
\<close>

datatype Vec = V (X: real) (Y: real)

definition ZV :: Vec where
  "ZV = V 0 0"

definition Vec_Add :: "Vec \<Rightarrow> Vec \<Rightarrow> Vec" where
  "Vec_Add u v = V (X u + X v) (Y u + Y v)"

definition Vec_Sub :: "Vec \<Rightarrow> Vec \<Rightarrow> Vec" where
  "Vec_Sub u v = V (X u - X v) (Y u - Y v)"

definition Scaled :: "Vec \<Rightarrow> real \<Rightarrow> Vec" where
  "Scaled u c = V (X u * c) (Y u * c)"

definition Len :: "Vec \<Rightarrow> real" where
  "Len u = sqrt (X u * X u + Y u * Y u)"

definition Unit :: "Vec \<Rightarrow> Vec" where
  "Unit u = (if X u = 0 \<and> Y u = 0 then V 1 0 else Scaled u (1 / Len u))"

definition Dot :: "Vec \<Rightarrow> Vec \<Rightarrow> real" where
  "Dot u v = X u * X v + Y u * Y v"

definition Rotated :: "Vec \<Rightarrow> real \<Rightarrow> Vec" where
  "Rotated u angle = V (X u * cos angle - Y u * sin angle) (X u * sin angle + Y u * cos angle)"

section \<open>The Verlet particle (verlet.go)\<close>

record VerletParticle =
  currentPosition :: Vec
  previousPosition :: Vec
  mass :: real
  currentForce :: Vec
  currentImpulse :: Vec
  recentVelocity :: Vec
  recentAcceleration :: Vec
  dt :: real

text \<open>\<open>NewVerletParticle\<close> leaves \<open>currentImpulse\<close> out of the literal: Go zeroes it.\<close>

definition NewVerletParticle :: "Vec \<Rightarrow> real \<Rightarrow> real \<Rightarrow> VerletParticle" where
  "NewVerletParticle position m step =
     \<lparr> currentPosition = position, previousPosition = position, mass = m,
       currentForce = ZV, currentImpulse = V 0 0,
       recentVelocity = ZV, recentAcceleration = ZV, dt = step \<rparr>"

definition Position :: "VerletParticle \<Rightarrow> Vec" where
  "Position p = currentPosition p"

definition Velocity :: "VerletParticle \<Rightarrow> Vec" where
  "Velocity p = recentVelocity p"

definition Acceleration :: "VerletParticle \<Rightarrow> Vec" where
  "Acceleration p = recentAcceleration p"

definition Mass :: "VerletParticle \<Rightarrow> real" where
  "Mass p = mass p"

definition ApplyForce :: "VerletParticle \<Rightarrow> Vec \<Rightarrow> VerletParticle" where
  "ApplyForce p force = p\<lparr>currentForce := Vec_Add (currentForce p) force\<rparr>"

definition ApplyImpulse :: "VerletParticle \<Rightarrow> Vec \<Rightarrow> VerletParticle" where
  "ApplyImpulse p impulse = p\<lparr>currentImpulse := Vec_Add (currentImpulse p) impulse\<rparr>"

definition SlideToPosition :: "VerletParticle \<Rightarrow> Vec \<Rightarrow> VerletParticle" where
  "SlideToPosition p newPos = p\<lparr>currentPosition := newPos\<rparr>"

definition SetVelocity :: "VerletParticle \<Rightarrow> Vec \<Rightarrow> VerletParticle" where
  "SetVelocity p vel =
     p\<lparr>previousPosition := Vec_Sub (currentPosition p) (Scaled vel (dt p))\<rparr>"

definition StepParticle :: "VerletParticle \<Rightarrow> VerletParticle" where
  "StepParticle p =
     (let totalForce = Vec_Add (currentForce p) (Scaled (currentImpulse p) (1 / dt p));
          acceleration = Scaled totalForce (1 / mass p);
          nextPosition = Vec_Add (Vec_Sub (Scaled (currentPosition p) 2) (previousPosition p))
                                 (Scaled acceleration (dt p * dt p))
      in p\<lparr> recentAcceleration := acceleration,
            recentVelocity := Scaled (Vec_Sub nextPosition (previousPosition p)) (0.5 / dt p),
            previousPosition := currentPosition p,
            currentPosition := nextPosition,
            currentForce := ZV,
            currentImpulse := ZV \<rparr>)"

text \<open>\<open>n\<close> calls of \<open>StepParticle\<close> in a row, with no other call in between.\<close>

fun StepParticle_times :: "nat \<Rightarrow> VerletParticle \<Rightarrow> VerletParticle" where
  "StepParticle_times 0 p = p"
| "StepParticle_times (Suc n) p = StepParticle_times n (StepParticle p)"

text \<open>
  The calls a client can make on a particle between two \<open>StepParticle\<close> calls.
\<close>

datatype particle_call =
    CallApplyForce Vec
  | CallApplyImpulse Vec
  | CallSlideToPosition Vec
  | CallSetVelocity Vec

fun call :: "VerletParticle \<Rightarrow> particle_call \<Rightarrow> VerletParticle" where
  "call p (CallApplyForce f) = ApplyForce p f"
| "call p (CallApplyImpulse j) = ApplyImpulse p j"
| "call p (CallSlideToPosition x) = SlideToPosition p x"
| "call p (CallSetVelocity v) = SetVelocity p v"

fun calls :: "VerletParticle \<Rightarrow> particle_call list \<Rightarrow> VerletParticle" where
  "calls p [] = p"
| "calls p (c # cs) = calls (call p c) cs"

section \<open>The environment interface (env.go) and the shared helpers\<close>

text \<open>
  A Go panic is the left summand of the result. \<open>IndexOutOfRange\<close> is the runtime panic of
  an index expression on a slice that is too short.
\<close>

datatype panic = LengthMismatch | OutOfRange | IndexOutOfRange

type_synonym info = "(string \<times> string) list"

record StepData =
  Observation :: "real list"
  Reward :: real
  Terminated :: bool
  Info :: info

record ResetData =
  Observation_reset :: "real list"
  Info_reset :: info

text \<open>The \<open>range\<close> loop of \<open>validateAction\<close>: the first component out of range panics.\<close>

fun validateRange :: "real list \<Rightarrow> panic + unit" where
  "validateRange [] = Inr ()"
| "validateRange (v # vs) = (if v < -1 \<or> v > 1 then Inl OutOfRange else validateRange vs)"

definition validateAction :: "real list \<Rightarrow> int \<Rightarrow> panic + unit" where
  "validateAction action targetLength =
     (if int (length action) \<noteq> targetLength then Inl LengthMismatch
      else validateRange action)"

text \<open>One round of the loop of \<open>clampAll\<close>: two assignments in sequence.\<close>

definition clampOne :: "real \<Rightarrow> real" where
  "clampOne v =
     (let c = v;
          c = (if c < -1 then -1 else c);
          c = (if c > 1 then 1 else c)
      in c)"

fun clampAll :: "real list \<Rightarrow> real list" where
  "clampAll [] = []"
| "clampAll (v # vals) = clampOne v # clampAll vals"

section \<open>Cart-pole (env\_cartpole.go)\<close>

record CartPoleSettings =
  Acceleration_setting :: real
  MaxVelocity :: real
  MaxRotationalVelocity :: real
  GravityAcceleration :: real
  TorqueMultiplier :: real
  TimeStep :: real
  MaxInitialAngle :: real
  MaxInitialOffset :: real
  FailAngle :: real
  CenteredPerStepReward :: real
  OutOfBoundsReward :: real
  PoleFallReward :: real

definition DefaultCartPoleSettings :: CartPoleSettings where
  "DefaultCartPoleSettings =
     \<lparr> Acceleration_setting = 0.5, MaxVelocity = 1.5, MaxRotationalVelocity = pi * 3,
       GravityAcceleration = 9.8, TorqueMultiplier = 4.0,
       TimeStep = 1.0 / 60.0, MaxInitialAngle = pi / 8, MaxInitialOffset = 0.8,
       FailAngle = pi / 2,
       CenteredPerStepReward = 1.0, OutOfBoundsReward = -1.0, PoleFallReward = -5.0 \<rparr>"

text \<open>The \<open>drawer\<close> field only serves \<open>Render\<close> and is left out.\<close>

record CartPoleEnv =
  BoxPosition :: real
  BoxVelocity :: real
  PoleRotation :: real
  PoleRotationalVelocity :: real
  Settings :: CartPoleSettings

definition NewCartPoleEnv :: "CartPoleSettings \<Rightarrow> CartPoleEnv" where
  "NewCartPoleEnv settings =
     \<lparr> BoxPosition = 0, BoxVelocity = 0, PoleRotation = 0, PoleRotationalVelocity = 0,
       Settings = settings \<rparr>"

definition CartPole_ActionLength :: "CartPoleEnv \<Rightarrow> int" where
  "CartPole_ActionLength e = 1"

definition CartPole_getObservation :: "CartPoleEnv \<Rightarrow> real list" where
  "CartPole_getObservation e =
     clampAll [BoxPosition e,
               BoxVelocity e / MaxVelocity (Settings e),
               PoleRotation e / 180.0,
               PoleRotationalVelocity e / MaxRotationalVelocity (Settings e)]"

definition CartPole_getInfo :: "CartPoleEnv \<Rightarrow> info" where
  "CartPole_getInfo e = []"

text \<open>Lines 91 to 110 of \<open>Step\<close>: the update of the four state variables.\<close>

definition CartPole_update :: "CartPoleEnv \<Rightarrow> real \<Rightarrow> CartPoleEnv" where
  "CartPole_update e forceAction =
     (let e = e\<lparr>BoxVelocity :=
                 BoxVelocity e + forceAction * Acceleration_setting (Settings e) * TimeStep (Settings e)\<rparr>;
          e = (if BoxVelocity e > MaxVelocity (Settings e)
               then e\<lparr>BoxVelocity := MaxVelocity (Settings e)\<rparr>
               else if BoxVelocity e < - MaxVelocity (Settings e)
               then e\<lparr>BoxVelocity := - MaxVelocity (Settings e)\<rparr>
               else e);
          e = e\<lparr>BoxPosition := BoxPosition e + BoxVelocity e * TimeStep (Settings e)\<rparr>;
          poleGravityAcceleration = GravityAcceleration (Settings e) * sin (PoleRotation e);
          poleTorque = forceAction * cos (PoleRotation e) * TorqueMultiplier (Settings e);
          e = e\<lparr>PoleRotationalVelocity :=
                 PoleRotationalVelocity e + (poleGravityAcceleration + poleTorque) * TimeStep (Settings e)\<rparr>;
          e = (if PoleRotationalVelocity e > MaxRotationalVelocity (Settings e)
               then e\<lparr>PoleRotationalVelocity := MaxRotationalVelocity (Settings e)\<rparr>
               else if PoleRotationalVelocity e < - MaxRotationalVelocity (Settings e)
               then e\<lparr>PoleRotationalVelocity := - MaxRotationalVelocity (Settings e)\<rparr>
               else e);
          e = e\<lparr>PoleRotation := PoleRotation e + PoleRotationalVelocity e * TimeStep (Settings e)\<rparr>
      in e)"

text \<open>Lines 112 to 121 of \<open>Step\<close>: the pair \<open>(failed, reward)\<close>.\<close>

definition CartPole_failed_reward :: "CartPoleEnv \<Rightarrow> bool \<times> real" where
  "CartPole_failed_reward e =
     (let failed = False;
          reward = CenteredPerStepReward (Settings e) * 1 - \<bar>BoxPosition e\<bar>
      in if BoxPosition e > 1.0 \<or> BoxPosition e < -1.0
         then (True, OutOfBoundsReward (Settings e))
         else if PoleRotation e > FailAngle (Settings e) \<or> PoleRotation e < - FailAngle (Settings e)
         then (True, PoleFallReward (Settings e))
         else (failed, reward))"

definition CartPole_Step :: "CartPoleEnv \<Rightarrow> real list \<Rightarrow> panic + (CartPoleEnv \<times> StepData)" where
  "CartPole_Step e action =
     (case validateAction action (CartPole_ActionLength e) of
        Inl err \<Rightarrow> Inl err
      | Inr _ \<Rightarrow>
          (let forceAction = action ! 0;
               e = CartPole_update e forceAction;
               (failed, reward) = CartPole_failed_reward e
           in Inr (e, \<lparr> Observation = CartPole_getObservation e, Reward = reward,
                         Terminated = failed, Info = CartPole_getInfo e \<rparr>)))"

text \<open>
  \<open>Reset\<close> draws two numbers with \<open>rand.Float64()\<close>, each in the half-open interval from
  0 to 1; the draws are the arguments \<open>r1\<close> and \<open>r2\<close>, in the order of the calls.
\<close>

definition CartPole_Reset :: "CartPoleEnv \<Rightarrow> real \<Rightarrow> real \<Rightarrow> CartPoleEnv \<times> ResetData" where
  "CartPole_Reset e r1 r2 =
     (let e = e\<lparr>BoxPosition := (r1 * 2 - 1) * MaxInitialOffset (Settings e)\<rparr>;
          e = e\<lparr>BoxVelocity := 0.0\<rparr>;
          e = e\<lparr>PoleRotation := (r2 * 2 - 1) * MaxInitialAngle (Settings e)\<rparr>;
          e = e\<lparr>PoleRotationalVelocity := 0.0\<rparr>
      in (e, \<lparr> Observation_reset = CartPole_getObservation e, Info_reset = CartPole_getInfo e \<rparr>))"

text \<open>
  A driver's loop: one \<open>Step\<close> for each action, the environment threaded through, the
  first panic ending the run. The result lists the environment and the step data after
  every call.
\<close>

fun CartPole_Steps :: "CartPoleEnv \<Rightarrow> real list list \<Rightarrow> panic + (CartPoleEnv \<times> StepData) list" where
  "CartPole_Steps e [] = Inr []"
| "CartPole_Steps e (a # as) =
     (case CartPole_Step e a of
        Inl err \<Rightarrow> Inl err
      | Inr (e', d) \<Rightarrow>
          (case CartPole_Steps e' as of
             Inl err \<Rightarrow> Inl err
           | Inr rest \<Rightarrow> Inr ((e', d) # rest)))"

section \<open>Ball-push (env\_ballpush.go)\<close>

record BallPushSettings =
  BallRadius :: real
  AgentRadius :: real
  AgentAcceleration :: real
  AgentDrag :: real
  BallDrag :: real
  BoundaryRadius :: real
  MoveToBallReward :: real
  TouchBallReward :: real
  MoveToCenterReward :: real
  PlaceInCenterReward :: real
  TargetRadius :: real
  Scale :: real
  DeltaTime :: real

definition DefaultBallPushSettings :: BallPushSettings where
  "DefaultBallPushSettings =
     \<lparr> BallRadius = 2, AgentRadius = 1, AgentAcceleration = 20, AgentDrag = 1.5,
       BallDrag = 0.75, BoundaryRadius = 50, MoveToBallReward = 0.5, TouchBallReward = 1,
       MoveToCenterReward = 1, PlaceInCenterReward = 2, TargetRadius = 3, Scale = 10,
       DeltaTime = 1.0 / 60.0 \<rparr>"

definition AgentMaxSpeed :: "BallPushSettings \<Rightarrow> real" where
  "AgentMaxSpeed b = AgentAcceleration b / AgentDrag b"

text \<open>
  \<open>Agent\<close> and \<open>Ball\<close> are pointers to two particles that \<open>NewBallPushEnv\<close> allocates
  one after the other, so they never alias; the record holds the two particles. The
  settings are behind a pointer that no method writes through. The field \<open>imd\<close> only
  serves \<open>Render\<close> and is left out.
\<close>

record BallPushEnv =
  Agent :: VerletParticle
  Ball :: VerletParticle
  HasTouchedBall :: bool
  HasCenteredBall :: bool
  BallPush_Settings :: BallPushSettings

definition BallInCenter :: "BallPushEnv \<Rightarrow> bool" where
  "BallInCenter b =
     (Len (Position (Ball b)) < TargetRadius (BallPush_Settings b) - BallRadius (BallPush_Settings b))"

definition BallPush_getObservation :: "BallPushEnv \<Rightarrow> real list" where
  "BallPush_getObservation b =
     [X (Position (Agent b)) / BoundaryRadius (BallPush_Settings b),
      Y (Position (Agent b)) / BoundaryRadius (BallPush_Settings b),
      X (Vec_Sub (Position (Ball b)) (Position (Agent b))) / (2 * BoundaryRadius (BallPush_Settings b)),
      Y (Vec_Sub (Position (Ball b)) (Position (Agent b))) / (2 * BoundaryRadius (BallPush_Settings b)),
      X (Velocity (Agent b)) / AgentMaxSpeed (BallPush_Settings b),
      Y (Velocity (Agent b)) / AgentMaxSpeed (BallPush_Settings b),
      X (Velocity (Ball b)) / AgentMaxSpeed (BallPush_Settings b),
      Y (Velocity (Ball b)) / AgentMaxSpeed (BallPush_Settings b)]"

definition BallPush_getInfo :: "BallPushEnv \<Rightarrow> info" where
  "BallPush_getInfo b = []"

text \<open>
  \<open>Reset\<close> draws four numbers with \<open>rand.Float64()\<close>, each in the half-open interval
  from 0 to 1: radius fraction and angle fraction of the agent, then of the ball.
\<close>

definition BallPush_Reset ::
  "BallPushEnv \<Rightarrow> real \<Rightarrow> real \<Rightarrow> real \<Rightarrow> real \<Rightarrow> BallPushEnv \<times> ResetData" where
  "BallPush_Reset b r1 r2 r3 r4 =
     (let b = b\<lparr>Agent := SlideToPosition (Agent b)
                   (Rotated (V 0 (r1 * BoundaryRadius (BallPush_Settings b) * 0.75)) (r2 * 2 * pi))\<rparr>;
          b = b\<lparr>Agent := SetVelocity (Agent b) ZV\<rparr>;
          b = b\<lparr>Ball := SlideToPosition (Ball b)
                   (Rotated (V 0 (r3 * BoundaryRadius (BallPush_Settings b) * 0.75)) (r4 * 2 * pi))\<rparr>;
          b = b\<lparr>Ball := SetVelocity (Ball b) ZV\<rparr>;
          b = b\<lparr>HasTouchedBall := False\<rparr>;
          b = b\<lparr>HasCenteredBall := False\<rparr>
      in (b, \<lparr> Observation_reset = BallPush_getObservation b, Info_reset = [] \<rparr>))"

text \<open>\<open>NewBallPushEnv\<close> calls \<open>Reset\<close> once, so it takes the four draws too.\<close>

definition NewBallPushEnv ::
  "BallPushSettings \<Rightarrow> real \<Rightarrow> real \<Rightarrow> real \<Rightarrow> real \<Rightarrow> BallPushEnv" where
  "NewBallPushEnv settings r1 r2 r3 r4 =
     (let e = \<lparr> Agent = NewVerletParticle ZV 1 (DeltaTime settings),
                 Ball = NewVerletParticle ZV 1 (DeltaTime settings),
                 HasTouchedBall = False, HasCenteredBall = False,
                 BallPush_Settings = settings \<rparr>
      in fst (BallPush_Reset e r1 r2 r3 r4))"

text \<open>Lines 158 to 162 of \<open>Step\<close>: the control vector.\<close>

definition BallPush_controlVec :: "real list \<Rightarrow> Vec" where
  "BallPush_controlVec action =
     (let controlVec = V (action ! 0) (action ! 1)
      in if Len controlVec > 0 then Unit controlVec else controlVec)"

definition BallPush_agentControlForce :: "BallPushEnv \<Rightarrow> real list \<Rightarrow> Vec" where
  "BallPush_agentControlForce e action =
     Scaled (BallPush_controlVec action) (AgentAcceleration (BallPush_Settings e))"

text \<open>Lines 164 to 169: the forces on the agent and on the ball.\<close>

definition BallPush_applyForces :: "BallPushEnv \<Rightarrow> real list \<Rightarrow> BallPushEnv" where
  "BallPush_applyForces e action =
     (let agentControlForce = BallPush_agentControlForce e action;
          agentDragForce = Scaled (Velocity (Agent e)) (AgentDrag (BallPush_Settings e));
          e = e\<lparr>Agent := ApplyForce (Agent e) (Vec_Sub agentControlForce agentDragForce)\<rparr>;
          ballDragForce = Scaled (Velocity (Ball e)) (BallDrag (BallPush_Settings e));
          e = e\<lparr>Ball := ApplyForce (Ball e) (Scaled ballDragForce (-1))\<rparr>
      in e)"

text \<open>Lines 171 to 174: the agent against the boundary.\<close>

definition BallPush_agentBoundary :: "BallPushEnv \<Rightarrow> BallPushEnv" where
  "BallPush_agentBoundary e =
     (let boundaryOverlap = Len (Position (Agent e)) + AgentRadius (BallPush_Settings e)
                              - BoundaryRadius (BallPush_Settings e)
      in if boundaryOverlap > 0
         then e\<lparr>Agent := SlideToPosition (Agent e)
                   (Scaled (Unit (Position (Agent e)))
                      (BoundaryRadius (BallPush_Settings e) - AgentRadius (BallPush_Settings e)))\<rparr>
         else e)"

text \<open>Line 176: the overlap of agent and ball.\<close>

definition BallPush_ballOverlap :: "BallPushEnv \<Rightarrow> real" where
  "BallPush_ballOverlap e =
     (AgentRadius (BallPush_Settings e) + BallRadius (BallPush_Settings e))
       - Len (Vec_Sub (Position (Agent e)) (Position (Ball e)))"

text \<open>
  Lines 177 to 185: the collision of agent and ball. The second component is the local
  variable \<open>justTouchedBall\<close>.
\<close>

definition BallPush_collide :: "BallPushEnv \<Rightarrow> BallPushEnv \<times> bool" where
  "BallPush_collide e =
     (let justTouchedBall = False;
          ballOverlap = BallPush_ballOverlap e
      in if ballOverlap > 0
         then (let (e, justTouchedBall) =
                     (if \<not> HasTouchedBall e then (e\<lparr>HasTouchedBall := True\<rparr>, True)
                      else (e, justTouchedBall));
                   correctionVec =
                     Scaled (Unit (Vec_Sub (Position (Agent e)) (Position (Ball e)))) (ballOverlap / 2);
                   e = e\<lparr>Agent := SlideToPosition (Agent e) (Vec_Add (Position (Agent e)) correctionVec)\<rparr>;
                   e = e\<lparr>Ball := SlideToPosition (Ball e) (Vec_Sub (Position (Ball e)) correctionVec)\<rparr>
               in (e, justTouchedBall))
         else (e, justTouchedBall))"

text \<open>Lines 187 to 190: the ball against the boundary.\<close>

definition BallPush_ballBoundary :: "BallPushEnv \<Rightarrow> BallPushEnv" where
  "BallPush_ballBoundary e =
     (let ballBoundaryOverlap = Len (Position (Ball e)) + BallRadius (BallPush_Settings e)
                                  - BoundaryRadius (BallPush_Settings e)
      in if ballBoundaryOverlap > 0
         then e\<lparr>Ball := SlideToPosition (Ball e)
                   (Scaled (Unit (Position (Ball e)))
                      (BoundaryRadius (BallPush_Settings e) - BallRadius (BallPush_Settings e)))\<rparr>
         else e)"

text \<open>
  Lines 192 to 196: the ball in the target. The second component is the local variable
  \<open>justCenteredBall\<close>.
\<close>

definition BallPush_center :: "BallPushEnv \<Rightarrow> BallPushEnv \<times> bool" where
  "BallPush_center e =
     (let justCenteredBall = False;
          ballInCenter = BallInCenter e
      in if ballInCenter \<and> \<not> HasCenteredBall e
         then (e\<lparr>HasCenteredBall := True\<rparr>, True)
         else (e, justCenteredBall))"

text \<open>Lines 198 and 199: the integration of both particles.\<close>

definition BallPush_integrate :: "BallPushEnv \<Rightarrow> BallPushEnv" where
  "BallPush_integrate e =
     (let e = e\<lparr>Agent := StepParticle (Agent e)\<rparr>;
          e = e\<lparr>Ball := StepParticle (Ball e)\<rparr>
      in e)"

text \<open>
  Lines 201 to 216: the reward. \<open>BallPush_shaping\<close> is what lines 201, 210 and 212 to 216
  add; \<open>BallPush_reward\<close> is the whole sum in the order of the source.
\<close>

definition BallPush_shaping :: "BallPushEnv \<Rightarrow> real" where
  "BallPush_shaping e =
     (let ballVelTowardsCenter = Dot (Velocity (Ball e)) (Scaled (Unit (Position (Ball e))) (-1));
          reward = MoveToCenterReward (BallPush_Settings e) * ballVelTowardsCenter
                     * DeltaTime (BallPush_Settings e) / BoundaryRadius (BallPush_Settings e)
      in if \<not> HasTouchedBall e
         then (let agentBallDir = Unit (Vec_Sub (Position (Ball e)) (Position (Agent e)));
                   agentVelTowardsBall = Dot (Velocity (Agent e)) agentBallDir
               in reward + MoveToBallReward (BallPush_Settings e) * agentVelTowardsBall
                             * DeltaTime (BallPush_Settings e) / (2 * BoundaryRadius (BallPush_Settings e)))
         else reward)"

definition BallPush_reward :: "BallPushEnv \<Rightarrow> bool \<Rightarrow> bool \<Rightarrow> real" where
  "BallPush_reward e justTouchedBall justCenteredBall =
     (let ballVelTowardsCenter = Dot (Velocity (Ball e)) (Scaled (Unit (Position (Ball e))) (-1));
          reward = 0.0;
          reward = (if justTouchedBall then reward + TouchBallReward (BallPush_Settings e) else reward);
          reward = (if justCenteredBall then reward + PlaceInCenterReward (BallPush_Settings e) else reward);
          reward = reward + MoveToCenterReward (BallPush_Settings e) * ballVelTowardsCenter
                              * DeltaTime (BallPush_Settings e) / BoundaryRadius (BallPush_Settings e)
      in if \<not> HasTouchedBall e
         then (let agentBallDir = Unit (Vec_Sub (Position (Ball e)) (Position (Agent e)));
                   agentVelTowardsBall = Dot (Velocity (Agent e)) agentBallDir
               in reward + MoveToBallReward (BallPush_Settings e) * agentVelTowardsBall
                             * DeltaTime (BallPush_Settings e) / (2 * BoundaryRadius (BallPush_Settings e)))
         else reward)"

text \<open>
  The state in which \<open>Step\<close> calls \<open>StepParticle\<close> (after line 196), with the two local
  flags.
\<close>

definition BallPush_constrain :: "BallPushEnv \<Rightarrow> real list \<Rightarrow> BallPushEnv \<times> bool \<times> bool" where
  "BallPush_constrain e action =
     (let e = BallPush_applyForces e action;
          e = BallPush_agentBoundary e;
          (e, justTouchedBall) = BallPush_collide e;
          e = BallPush_ballBoundary e;
          (e, justCenteredBall) = BallPush_center e
      in (e, justTouchedBall, justCenteredBall))"

text \<open>
  \<open>Step\<close>, returning besides the environment and the step data the two local variables
  \<open>justTouchedBall\<close> and \<open>justCenteredBall\<close>, which decide whether the two bonuses are
  added to the reward.
\<close>

definition BallPush_Step_traced ::
  "BallPushEnv \<Rightarrow> real list \<Rightarrow> panic + (BallPushEnv \<times> StepData \<times> bool \<times> bool)" where
  "BallPush_Step_traced e action =
     (case validateAction action 2 of
        Inl err \<Rightarrow> Inl err
      | Inr _ \<Rightarrow>
          (let (e, justTouchedBall, justCenteredBall) = BallPush_constrain e action;
               e = BallPush_integrate e;
               reward = BallPush_reward e justTouchedBall justCenteredBall
           in Inr (e, \<lparr> Observation = BallPush_getObservation e, Reward = reward,
                         Terminated = False, Info = BallPush_getInfo e \<rparr>,
                   justTouchedBall, justCenteredBall)))"

definition BallPush_Step :: "BallPushEnv \<Rightarrow> real list \<Rightarrow> panic + (BallPushEnv \<times> StepData)" where
  "BallPush_Step e action =
     (case BallPush_Step_traced e action of
        Inl err \<Rightarrow> Inl err
      | Inr (e', d, _) \<Rightarrow> Inr (e', d))"

text \<open>
  An episode after a \<open>Reset\<close>: one \<open>Step\<close> for each action, the first panic ending the
  run. The result lists what every call returned, with its two flags.
\<close>

fun BallPush_Steps ::
  "BallPushEnv \<Rightarrow> real list list \<Rightarrow> panic + (BallPushEnv \<times> StepData \<times> bool \<times> bool) list" where
  "BallPush_Steps e [] = Inr []"
| "BallPush_Steps e (a # as) =
     (case BallPush_Step_traced e a of
        Inl err \<Rightarrow> Inl err
      | Inr (e', d, jt, jc) \<Rightarrow>
          (case BallPush_Steps e' as of
             Inl err \<Rightarrow> Inl err
           | Inr rest \<Rightarrow> Inr ((e', d, jt, jc) # rest)))"

text \<open>The environment after a driver's loop, the first panic ending the run.\<close>

fun BallPush_run :: "BallPushEnv \<Rightarrow> real list list \<Rightarrow> panic + BallPushEnv" where
  "BallPush_run e [] = Inr e"
| "BallPush_run e (a # as) =
     (case BallPush_Step e a of
        Inl err \<Rightarrow> Inl err
      | Inr (e', d) \<Rightarrow> BallPush_run e' as)"

section \<open>Walker (env\_walker.go)\<close>

text \<open>
  The walker delegates its physics to an external rigid-body engine. The engine is a
  parameter of the model: \<open>'w\<close> is the state of its world, and the record below holds the
  calls \<open>Step\<close> makes on it. Joints are numbered 0 to 3 in the order left hip, right hip,
  left knee, right knee.
\<close>

record 'w Engine =
  SetMotorSpeed :: "'w \<Rightarrow> nat \<Rightarrow> real \<Rightarrow> 'w"
  WorldStep :: "'w \<Rightarrow> real \<Rightarrow> nat \<Rightarrow> nat \<Rightarrow> 'w"
  GetJointAngle :: "'w \<Rightarrow> nat \<Rightarrow> real"
  GetJointSpeed :: "'w \<Rightarrow> nat \<Rightarrow> real"
  HeadAngle :: "'w \<Rightarrow> real"
  HeadLinearVelocityX :: "'w \<Rightarrow> real"
  HeadPositionY :: "'w \<Rightarrow> real"

record 'w WalkerEnv =
  world :: 'w
  MaxJointVelocity :: real
  MaxJointAngle :: real
  StopOnFall :: bool

definition Walker_ActionLength :: "'w WalkerEnv \<Rightarrow> int" where
  "Walker_ActionLength e = 4"

definition SetMotorSpeeds :: "'w Engine \<Rightarrow> 'w WalkerEnv \<Rightarrow> real \<Rightarrow> real \<Rightarrow> real \<Rightarrow> real \<Rightarrow> 'w WalkerEnv" where
  "SetMotorSpeeds b2 e lHip rHip lKnee rKnee =
     (let e = e\<lparr>world := SetMotorSpeed b2 (world e) 0 (MaxJointVelocity e * lHip)\<rparr>;
          e = e\<lparr>world := SetMotorSpeed b2 (world e) 1 (MaxJointVelocity e * rHip)\<rparr>;
          e = e\<lparr>world := SetMotorSpeed b2 (world e) 2 (MaxJointVelocity e * lKnee)\<rparr>;
          e = e\<lparr>world := SetMotorSpeed b2 (world e) 3 (MaxJointVelocity e * rKnee)\<rparr>
      in e)"

definition Walker_getObservation :: "'w Engine \<Rightarrow> 'w WalkerEnv \<Rightarrow> real list" where
  "Walker_getObservation b2 e =
     (let bodyAngle = HeadAngle b2 (world e)
      in [GetJointAngle b2 (world e) 0 / MaxJointAngle e,
          GetJointAngle b2 (world e) 1 / MaxJointAngle e,
          GetJointAngle b2 (world e) 2 / MaxJointAngle e,
          GetJointAngle b2 (world e) 3 / MaxJointAngle e,
          GetJointSpeed b2 (world e) 0 / MaxJointVelocity e,
          GetJointSpeed b2 (world e) 1 / MaxJointVelocity e,
          GetJointSpeed b2 (world e) 2 / MaxJointVelocity e,
          GetJointSpeed b2 (world e) 3 / MaxJointVelocity e,
          sin bodyAngle, cos bodyAngle])"

text \<open>
  \<open>WalkerEnv.Step\<close> starts with the index expressions \<open>action[0]\<close> to \<open>action[3]\<close>; there
  is no call of \<open>validateAction\<close>. A slice shorter than four panics at the first index
  that is out of range.
\<close>

definition Walker_Step ::
  "'w Engine \<Rightarrow> 'w WalkerEnv \<Rightarrow> real list \<Rightarrow> panic + ('w WalkerEnv \<times> StepData)" where
  "Walker_Step b2 e action =
     (if length action < 4 then Inl IndexOutOfRange
      else
        (let e = SetMotorSpeeds b2 e (action ! 0) (action ! 1) (action ! 2) (action ! 3);
             e = e\<lparr>world := WorldStep b2 (world e) (1.0 / 60) 6 2\<rparr>;
             headVx = HeadLinearVelocityX b2 (world e);
             headPy = HeadPositionY b2 (world e)
         in Inr (e, \<lparr> Observation = Walker_getObservation b2 e,
                       Reward = headVx * (1.0 / 60),
                       Terminated = (headPy < 1.2 \<and> StopOnFall e),
                       Info = [] \<rparr>)))"

section \<open>The words of the specification\<close>

text \<open>
  A valid action of length \<open>n\<close>: the length is \<open>n\<close> and every component lies between
  -1 and 1, the bounds included.
\<close>

definition valid_action :: "nat \<Rightarrow> real list \<Rightarrow> bool" where
  "valid_action n a \<longleftrightarrow> length a = n \<and> (\<forall>v\<in>set a. -1 \<le> v \<and> v \<le> 1)"

text \<open>The clamp of a number to the interval from -1 to 1.\<close>

definition clamp_unit :: "real \<Rightarrow> real" where
  "clamp_unit x = max (-1) (min 1 x)"

text \<open>The cart-pole observation as the specification words it.\<close>

definition CartPole_observation_spec :: "CartPoleEnv \<Rightarrow> real list" where
  "CartPole_observation_spec e =
     map clamp_unit [BoxPosition e, BoxVelocity e / MaxVelocity (Settings e),
                     PoleRotation e / 180,
                     PoleRotationalVelocity e / MaxRotationalVelocity (Settings e)]"

text \<open>
  Whether a step of an episode added the touch bonus, and whether it added the center
  bonus: the two flags that \<open>BallPush_Step_traced\<close> returns.
\<close>

definition touch_granted :: "BallPushEnv \<times> StepData \<times> bool \<times> bool \<Rightarrow> bool" where
  "touch_granted r = fst (snd (snd r))"

definition center_granted :: "BallPushEnv \<times> StepData \<times> bool \<times> bool \<Rightarrow> bool" where
  "center_granted r = snd (snd (snd r))"

section \<open>Theorems on the Verlet particle\<close>

lemma StepParticle_unforced:
  assumes "currentForce p = ZV" "currentImpulse p = ZV" "dt p \<noteq> 0" "mass p \<noteq> 0"
  shows "StepParticle p = p\<lparr> recentAcceleration := ZV,
            recentVelocity := Scaled (Vec_Sub (currentPosition p) (previousPosition p)) (1 / dt p),
            previousPosition := currentPosition p,
            currentPosition := Vec_Add (currentPosition p) (Vec_Sub (currentPosition p) (previousPosition p)),
            currentForce := ZV,
            currentImpulse := ZV \<rparr>"
  using assms
  by (simp add: StepParticle_def Let_def ZV_def Vec_Add_def Vec_Sub_def Scaled_def field_simps)

lemma StepParticle_frame:
  "dt (StepParticle p) = dt p" "mass (StepParticle p) = mass p"
  "currentForce (StepParticle p) = ZV" "currentImpulse (StepParticle p) = ZV"
  "previousPosition (StepParticle p) = currentPosition p"
  by (simp_all add: StepParticle_def Let_def)

lemma StepParticle_times_frame:
  "dt (StepParticle_times n p) = dt p \<and> mass (StepParticle_times n p) = mass p"
  by (induction n arbitrary: p) (simp_all add: StepParticle_frame)

lemma StepParticle_times_force:
  "currentForce p = ZV \<Longrightarrow> currentImpulse p = ZV \<Longrightarrow>
   currentForce (StepParticle_times n p) = ZV \<and> currentImpulse (StepParticle_times n p) = ZV"
  by (induction n arbitrary: p) (simp_all add: StepParticle_frame)

lemma StepParticle_times_Suc:
  "StepParticle_times (Suc n) p = StepParticle (StepParticle_times n p)"
  by (induction n arbitrary: p) simp_all

lemma unforced_displacement:
  assumes "currentForce p = ZV" "currentImpulse p = ZV" "dt p \<noteq> 0" "mass p \<noteq> 0"
  shows "Vec_Sub (currentPosition (StepParticle p)) (previousPosition (StepParticle p))
         = Vec_Sub (currentPosition p) (previousPosition p)"
  by (simp add: StepParticle_unforced[OF assms] Vec_Add_def Vec_Sub_def)

lemma unforced_displacement_times:
  assumes "currentForce p = ZV" "currentImpulse p = ZV" "dt p \<noteq> 0" "mass p \<noteq> 0"
  shows "Vec_Sub (currentPosition (StepParticle_times n p)) (previousPosition (StepParticle_times n p))
         = Vec_Sub (currentPosition p) (previousPosition p)"
  using assms
proof (induction n arbitrary: p)
  case 0
  then show ?case by simp
next
  case (Suc n)
  have "Vec_Sub (currentPosition (StepParticle_times n (StepParticle p)))
                (previousPosition (StepParticle_times n (StepParticle p)))
        = Vec_Sub (currentPosition (StepParticle p)) (previousPosition (StepParticle p))"
    by (rule Suc.IH) (simp_all add: StepParticle_frame Suc.prems)
  then show ?case
    by (simp add: unforced_displacement Suc.prems)
qed

text \<open>
  C8. A particle whose accumulated force and impulse are zero, and on which only
  \<open>StepParticle\<close> is called, moves at constant velocity: every call advances the position
  by the same displacement, the difference of the current and the previous position at
  the start, and after every call \<open>Velocity\<close> returns the same value, that displacement
  divided by the time step. The arithmetic is exact; the time step and the mass are not
  zero, as the quotients by them need.
\<close>

theorem zero_force_constant_velocity:
  assumes "currentForce p = ZV" and "currentImpulse p = ZV"
    and "dt p \<noteq> 0" and "mass p \<noteq> 0"
  shows "Vec_Sub (Position (StepParticle_times (Suc n) p)) (Position (StepParticle_times n p))
           = Vec_Sub (currentPosition p) (previousPosition p)
       \<and> Velocity (StepParticle_times (Suc n) p)
           = Scaled (Vec_Sub (currentPosition p) (previousPosition p)) (1 / dt p)
       \<and> Velocity (StepParticle_times (Suc n) p) = Velocity (StepParticle p)
       \<and> Acceleration (StepParticle_times (Suc n) p) = ZV"
proof -
  let ?q = "StepParticle_times n p"
  have q: "currentForce ?q = ZV" "currentImpulse ?q = ZV" "dt ?q \<noteq> 0" "mass ?q \<noteq> 0"
    using assms StepParticle_times_force[of p n] StepParticle_times_frame[of n p] by simp_all
  have d: "Vec_Sub (currentPosition ?q) (previousPosition ?q)
           = Vec_Sub (currentPosition p) (previousPosition p)"
    by (rule unforced_displacement_times[OF assms])
  have s: "StepParticle_times (Suc n) p = StepParticle ?q"
    by (rule StepParticle_times_Suc)
  have dq: "dt ?q = dt p"
    using StepParticle_times_frame[of n p] by simp
  have 1: "Vec_Sub (Position (StepParticle ?q)) (Position ?q)
           = Vec_Sub (currentPosition p) (previousPosition p)"
    using d by (simp add: StepParticle_unforced[OF q] Position_def Vec_Add_def Vec_Sub_def)
  have 2: "Velocity (StepParticle ?q)
           = Scaled (Vec_Sub (currentPosition p) (previousPosition p)) (1 / dt p)"
    using d dq by (simp add: StepParticle_unforced[OF q] Velocity_def)
  have 3: "Velocity (StepParticle p)
           = Scaled (Vec_Sub (currentPosition p) (previousPosition p)) (1 / dt p)"
    by (simp add: StepParticle_unforced[OF assms] Velocity_def)
  have 4: "Acceleration (StepParticle ?q) = ZV"
    by (simp add: StepParticle_unforced[OF q] Acceleration_def)
  show ?thesis
    unfolding s using 1 2 3 4 by simp
qed

theorem zero_force_constant_velocity_witness:
  "Vec_Sub (Position (StepParticle_times 3 (SetVelocity (NewVerletParticle (V 1 2) 2 (1/2)) (V 4 6))))
           (Position (StepParticle_times 2 (SetVelocity (NewVerletParticle (V 1 2) 2 (1/2)) (V 4 6))))
     = V 2 3
   \<and> Velocity (StepParticle_times 3 (SetVelocity (NewVerletParticle (V 1 2) 2 (1/2)) (V 4 6))) = V 4 6"
  using zero_force_constant_velocity[of "SetVelocity (NewVerletParticle (V 1 2) 2 (1/2)) (V 4 6)" 2]
  by (simp add: SetVelocity_def NewVerletParticle_def ZV_def Vec_Sub_def Scaled_def numeral_3_eq_3 numeral_2_eq_2)

text \<open>
  C4. The claim is that a read of \<open>Velocity\<close> right after \<open>SetVelocity v\<close> returns \<open>v\<close>.
  On a new particle at the origin with mass 1 and time step 1, after \<open>SetVelocity\<close> with
  the vector \<open>(1, 0)\<close> the read returns the zero vector: \<open>Velocity\<close> returns the cached
  \<open>recentVelocity\<close>, which \<open>SetVelocity\<close> does not write. The position is unchanged, as
  claimed, and the previous position is such that the difference quotient is \<open>(1, 0)\<close>.
\<close>

theorem SetVelocity_read_is_stale:
  "Velocity (SetVelocity (NewVerletParticle (V 0 0) 1 1) (V 1 0)) = V 0 0
   \<and> Velocity (SetVelocity (NewVerletParticle (V 0 0) 1 1) (V 1 0)) \<noteq> V 1 0
   \<and> Position (SetVelocity (NewVerletParticle (V 0 0) 1 1) (V 1 0)) = V 0 0
   \<and> previousPosition (SetVelocity (NewVerletParticle (V 0 0) 1 1) (V 1 0)) = V (-1) 0"
  by (simp add: Velocity_def Position_def SetVelocity_def NewVerletParticle_def ZV_def
      Vec_Sub_def Scaled_def)

text \<open>
  What \<open>SetVelocity\<close> does establish: the position stays, the read is the old one, and the
  next \<open>StepParticle\<close> of a particle without force and impulse makes \<open>Velocity\<close> return
  the vector that was set.
\<close>

lemma SetVelocity_then_StepParticle:
  assumes "currentForce p = ZV" and "currentImpulse p = ZV" and "dt p \<noteq> 0" and "mass p \<noteq> 0"
  shows "Position (SetVelocity p v) = Position p"
    and "Velocity (SetVelocity p v) = Velocity p"
    and "Velocity (StepParticle (SetVelocity p v)) = v"
proof -
  let ?q = "SetVelocity p v"
  have q: "currentForce ?q = ZV" "currentImpulse ?q = ZV" "dt ?q \<noteq> 0" "mass ?q \<noteq> 0"
    using assms by (simp_all add: SetVelocity_def)
  show "Position ?q = Position p" "Velocity ?q = Velocity p"
    by (simp_all add: SetVelocity_def Position_def Velocity_def)
  show "Velocity (StepParticle ?q) = v"
    unfolding StepParticle_unforced[OF q] using assms(3)
    by (cases v) (simp add: Velocity_def SetVelocity_def Vec_Sub_def Scaled_def)
qed

lemma call_frame:
  "recentVelocity (call p c) = recentVelocity p \<and> recentAcceleration (call p c) = recentAcceleration p
   \<and> mass (call p c) = mass p \<and> dt (call p c) = dt p"
  by (cases c) (simp_all add: ApplyForce_def ApplyImpulse_def SlideToPosition_def SetVelocity_def)

lemma calls_frame:
  "recentVelocity (calls p cs) = recentVelocity p \<and> recentAcceleration (calls p cs) = recentAcceleration p"
  by (induction cs arbitrary: p) (simp_all add: call_frame)

text \<open>
  C10. \<open>SlideToPosition\<close> writes the current position and nothing else, \<open>SetVelocity\<close>
  writes the previous position and nothing else; in particular both leave the cached
  \<open>recentVelocity\<close> and \<open>recentAcceleration\<close> alone. After any sequence of calls other
  than \<open>StepParticle\<close>, \<open>Velocity\<close> and \<open>Acceleration\<close> return what the most recent
  \<open>StepParticle\<close> computed, and the zero vector for a new particle.
\<close>

theorem cached_fields_frame:
  "SlideToPosition p x = p\<lparr>currentPosition := x\<rparr>
   \<and> recentVelocity (SlideToPosition p x) = recentVelocity p
   \<and> recentAcceleration (SlideToPosition p x) = recentAcceleration p
   \<and> previousPosition (SlideToPosition p x) = previousPosition p
   \<and> mass (SlideToPosition p x) = mass p \<and> dt (SlideToPosition p x) = dt p
   \<and> currentForce (SlideToPosition p x) = currentForce p
   \<and> currentImpulse (SlideToPosition p x) = currentImpulse p
   \<and> recentVelocity (SetVelocity p v) = recentVelocity p
   \<and> recentAcceleration (SetVelocity p v) = recentAcceleration p
   \<and> currentPosition (SetVelocity p v) = currentPosition p
   \<and> mass (SetVelocity p v) = mass p \<and> dt (SetVelocity p v) = dt p
   \<and> currentForce (SetVelocity p v) = currentForce p
   \<and> currentImpulse (SetVelocity p v) = currentImpulse p
   \<and> Velocity (calls (StepParticle p) cs) = Velocity (StepParticle p)
   \<and> Acceleration (calls (StepParticle p) cs) = Acceleration (StepParticle p)
   \<and> Velocity (calls (NewVerletParticle pos m d) cs) = ZV
   \<and> Acceleration (calls (NewVerletParticle pos m d) cs) = ZV"
  by (simp add: calls_frame Velocity_def Acceleration_def SlideToPosition_def SetVelocity_def
      NewVerletParticle_def)

section \<open>Theorems on the validation of actions\<close>

lemma validateRange_Inr: "validateRange a = Inr () \<longleftrightarrow> (\<forall>v\<in>set a. -1 \<le> v \<and> v \<le> 1)"
  by (induction a) auto

lemma validateRange_Inl: "validateRange a = Inl err \<Longrightarrow> err = OutOfRange"
  by (induction a) (auto split: if_splits)

lemma validateAction_Inr:
  "validateAction a n = Inr () \<longleftrightarrow> int (length a) = n \<and> (\<forall>v\<in>set a. -1 \<le> v \<and> v \<le> 1)"
  by (simp add: validateAction_def validateRange_Inr)

lemma validateAction_cases:
  "validateAction a n =
     (if int (length a) \<noteq> n then Inl LengthMismatch
      else if \<exists>v\<in>set a. v < -1 \<or> 1 < v then Inl OutOfRange else Inr ())"
proof -
  have "validateRange a = (if \<exists>v\<in>set a. v < -1 \<or> 1 < v then Inl OutOfRange else Inr ())"
    by (induction a) auto
  then show ?thesis by (simp add: validateAction_def)
qed

lemma CartPole_Step_validated:
  "CartPole_Step e a =
     (if length a \<noteq> 1 then Inl LengthMismatch
      else if \<exists>v\<in>set a. v < -1 \<or> 1 < v then Inl OutOfRange
      else Inr (CartPole_update e (a ! 0),
                \<lparr> Observation = CartPole_getObservation (CartPole_update e (a ! 0)),
                  Reward = snd (CartPole_failed_reward (CartPole_update e (a ! 0))),
                  Terminated = fst (CartPole_failed_reward (CartPole_update e (a ! 0))),
                  Info = [] \<rparr>))"
  by (simp add: CartPole_Step_def validateAction_cases CartPole_ActionLength_def Let_def
      CartPole_getInfo_def split_beta)

lemma BallPush_Step_traced_validated:
  "BallPush_Step_traced e a =
     (if length a \<noteq> 2 then Inl LengthMismatch
      else if \<exists>v\<in>set a. v < -1 \<or> 1 < v then Inl OutOfRange
      else (let c = BallPush_constrain e a; e' = BallPush_integrate (fst c)
            in Inr (e', \<lparr> Observation = BallPush_getObservation e',
                    Reward = BallPush_reward e' (fst (snd c)) (snd (snd c)),
                    Terminated = False, Info = [] \<rparr>, fst (snd c), snd (snd c))))"
  by (simp add: BallPush_Step_traced_def validateAction_cases Let_def
      BallPush_getInfo_def split_beta)

text \<open>
  C1. The claim is that \<open>Step\<close> of every environment panics on an action of the wrong
  length or with a component of magnitude above 1. \<open>WalkerEnv.Step\<close> does not: it returns
  step data for the action \<open>(2, 0, 0, 0)\<close> and for the action of length five, both of which
  \<open>validateAction\<close> rejects for the walker's action length, and which the two other
  environments reject in their \<open>Step\<close>.
\<close>

theorem Walker_Step_skips_validation:
  "\<not> isl (Walker_Step b2 w [2, 0, 0, 0])
   \<and> \<not> isl (Walker_Step b2 w [0, 0, 0, 0, 0])
   \<and> validateAction [2, 0, 0, 0] (Walker_ActionLength w) = Inl OutOfRange
   \<and> validateAction [0, 0, 0, 0, 0] (Walker_ActionLength w) = Inl LengthMismatch
   \<and> CartPole_Step c [2] = Inl OutOfRange
   \<and> CartPole_Step c [0, 0] = Inl LengthMismatch
   \<and> BallPush_Step b [2, 0] = Inl OutOfRange
   \<and> BallPush_Step b [0, 0, 0] = Inl LengthMismatch"
  by (simp add: Walker_Step_def Let_def CartPole_Step_validated BallPush_Step_def
      BallPush_Step_traced_validated validateAction_cases Walker_ActionLength_def)

section \<open>Theorems on cart-pole\<close>

lemma CartPole_update_Settings: "Settings (CartPole_update e f) = Settings e"
  by (simp add: CartPole_update_def Let_def)

lemma CartPole_update_BoxVelocity:
  "0 \<le> MaxVelocity (Settings e) \<Longrightarrow> \<bar>BoxVelocity (CartPole_update e f)\<bar> \<le> MaxVelocity (Settings e)"
  by (simp add: CartPole_update_def Let_def abs_le_iff)

lemma CartPole_update_PoleRotationalVelocity:
  "0 \<le> MaxRotationalVelocity (Settings e) \<Longrightarrow>
   \<bar>PoleRotationalVelocity (CartPole_update e f)\<bar> \<le> MaxRotationalVelocity (Settings e)"
  by (simp add: CartPole_update_def Let_def abs_le_iff)

lemma CartPole_Step_valid:
  "valid_action 1 a \<Longrightarrow>
   CartPole_Step e a = Inr (CartPole_update e (a ! 0),
                \<lparr> Observation = CartPole_getObservation (CartPole_update e (a ! 0)),
                  Reward = snd (CartPole_failed_reward (CartPole_update e (a ! 0))),
                  Terminated = fst (CartPole_failed_reward (CartPole_update e (a ! 0))),
                  Info = [] \<rparr>)"
  by (auto simp add: CartPole_Step_validated valid_action_def)

lemma CartPole_Steps_bounded:
  assumes "0 \<le> MaxVelocity (Settings e)" and "0 \<le> MaxRotationalVelocity (Settings e)"
    and "\<forall>a\<in>set as. valid_action 1 a"
  shows "\<exists>tr. CartPole_Steps e as = Inr tr \<and> length tr = length as
           \<and> (\<forall>(e', d)\<in>set tr. Settings e' = Settings e
                 \<and> \<bar>BoxVelocity e'\<bar> \<le> MaxVelocity (Settings e)
                 \<and> \<bar>PoleRotationalVelocity e'\<bar> \<le> MaxRotationalVelocity (Settings e))"
  using assms
proof (induction as arbitrary: e)
  case Nil
  then show ?case by simp
next
  case (Cons a as)
  let ?e1 = "CartPole_update e (a ! 0)"
  have va: "valid_action 1 a" using Cons.prems(3) by simp
  have s1: "Settings ?e1 = Settings e" by (rule CartPole_update_Settings)
  have "\<exists>tr. CartPole_Steps ?e1 as = Inr tr \<and> length tr = length as
           \<and> (\<forall>(e', d)\<in>set tr. Settings e' = Settings ?e1
                 \<and> \<bar>BoxVelocity e'\<bar> \<le> MaxVelocity (Settings ?e1)
                 \<and> \<bar>PoleRotationalVelocity e'\<bar> \<le> MaxRotationalVelocity (Settings ?e1))"
    by (rule Cons.IH) (use Cons.prems s1 in simp_all)
  then obtain tr where tr: "CartPole_Steps ?e1 as = Inr tr" "length tr = length as"
    "\<forall>(e', d)\<in>set tr. Settings e' = Settings e
                 \<and> \<bar>BoxVelocity e'\<bar> \<le> MaxVelocity (Settings e)
                 \<and> \<bar>PoleRotationalVelocity e'\<bar> \<le> MaxRotationalVelocity (Settings e)"
    unfolding s1 by blast
  have b1: "\<bar>BoxVelocity ?e1\<bar> \<le> MaxVelocity (Settings e)"
    by (rule CartPole_update_BoxVelocity[OF Cons.prems(1)])
  have b2: "\<bar>PoleRotationalVelocity ?e1\<bar> \<le> MaxRotationalVelocity (Settings e)"
    by (rule CartPole_update_PoleRotationalVelocity[OF Cons.prems(2)])
  show ?case
    using tr b1 b2 s1 by (simp add: CartPole_Step_valid[OF va])
qed

lemma CartPole_Reset_Settings: "Settings (fst (CartPole_Reset e r1 r2)) = Settings e"
  by (simp add: CartPole_Reset_def Let_def)

text \<open>
  C6. From the state that \<open>Reset\<close> produces, every finite sequence of valid actions runs
  without a panic, and after every \<open>Step\<close> the magnitude of the cart velocity is at most
  \<open>MaxVelocity\<close> and the magnitude of the pole's angular velocity is at most
  \<open>MaxRotationalVelocity\<close>. The two maxima are not negative (no magnitude is below a
  negative maximum).
\<close>

theorem CartPole_velocities_bounded:
  assumes "0 \<le> MaxVelocity (Settings e)" and "0 \<le> MaxRotationalVelocity (Settings e)"
    and "\<forall>a\<in>set as. valid_action 1 a"
  shows "\<exists>tr. CartPole_Steps (fst (CartPole_Reset e r1 r2)) as = Inr tr \<and> length tr = length as
           \<and> (\<forall>(e', d)\<in>set tr.
                 \<bar>BoxVelocity e'\<bar> \<le> MaxVelocity (Settings e')
                 \<and> \<bar>PoleRotationalVelocity e'\<bar> \<le> MaxRotationalVelocity (Settings e')
                 \<and> Settings e' = Settings e)"
proof -
  let ?e0 = "fst (CartPole_Reset e r1 r2)"
  have s0: "Settings ?e0 = Settings e" by (rule CartPole_Reset_Settings)
  have "\<exists>tr. CartPole_Steps ?e0 as = Inr tr \<and> length tr = length as
           \<and> (\<forall>(e', d)\<in>set tr. Settings e' = Settings ?e0
                 \<and> \<bar>BoxVelocity e'\<bar> \<le> MaxVelocity (Settings ?e0)
                 \<and> \<bar>PoleRotationalVelocity e'\<bar> \<le> MaxRotationalVelocity (Settings ?e0))"
    by (rule CartPole_Steps_bounded) (use assms s0 in simp_all)
  then show ?thesis
    unfolding s0 by fastforce
qed

theorem CartPole_velocities_bounded_witness:
  "\<exists>tr. CartPole_Steps (fst (CartPole_Reset (NewCartPoleEnv DefaultCartPoleSettings) (1/4) (3/4)))
           [[1], [-1], [0], [1/2]] = Inr tr \<and> length tr = 4
     \<and> (\<forall>(e', d)\<in>set tr.
           \<bar>BoxVelocity e'\<bar> \<le> 1.5 \<and> \<bar>PoleRotationalVelocity e'\<bar> \<le> pi * 3)"
proof -
  have s: "Settings (NewCartPoleEnv DefaultCartPoleSettings) = DefaultCartPoleSettings"
    by (simp add: NewCartPoleEnv_def)
  have h1: "0 \<le> MaxVelocity (Settings (NewCartPoleEnv DefaultCartPoleSettings))"
    by (simp add: NewCartPoleEnv_def DefaultCartPoleSettings_def)
  have h2: "0 \<le> MaxRotationalVelocity (Settings (NewCartPoleEnv DefaultCartPoleSettings))"
    by (simp add: NewCartPoleEnv_def DefaultCartPoleSettings_def)
  have h3: "\<forall>a\<in>set [[1], [-1], [0], [1/2::real]]. valid_action 1 a"
    by (simp add: valid_action_def)
  have m: "MaxVelocity DefaultCartPoleSettings = 1.5"
    "MaxRotationalVelocity DefaultCartPoleSettings = pi * 3"
    by (simp_all add: DefaultCartPoleSettings_def)
  show ?thesis
    using CartPole_velocities_bounded[OF h1 h2 h3, of "1/4" "3/4"]
    unfolding s by (fastforce simp: m)
qed

lemma clampOne_clamp_unit: "clampOne v = clamp_unit v"
  by (simp add: clampOne_def clamp_unit_def Let_def max_def min_def)

lemma clampAll_map: "clampAll vals = map clamp_unit vals"
  by (induction vals) (simp_all add: clampOne_clamp_unit)

text \<open>
  C7. The observation that \<open>Reset\<close> and \<open>Step\<close> return is the element-wise clamp to the
  interval from -1 to 1 of the four numbers cart position, cart velocity over
  \<open>MaxVelocity\<close>, pole angle over the constant 180, and angular velocity over
  \<open>MaxRotationalVelocity\<close>, all read in the state after the call.
\<close>

theorem CartPole_observation:
  "Observation_reset (snd (CartPole_Reset e r1 r2))
     = CartPole_observation_spec (fst (CartPole_Reset e r1 r2))
   \<and> (\<forall>e' d. CartPole_Step e a = Inr (e', d) \<longrightarrow>
         Observation d = CartPole_observation_spec e'
         \<and> length (Observation d) = 4
         \<and> (\<forall>x\<in>set (Observation d). -1 \<le> x \<and> x \<le> 1))"
proof -
  have g: "CartPole_getObservation s = CartPole_observation_spec s" for s
    by (simp add: CartPole_getObservation_def CartPole_observation_spec_def clampAll_map
        del: list.map)
  have r: "\<forall>x\<in>set (CartPole_observation_spec s). -1 \<le> x \<and> x \<le> 1" for s
    by (simp add: CartPole_observation_spec_def clamp_unit_def)
  have l: "length (CartPole_observation_spec s) = 4" for s
    by (simp add: CartPole_observation_spec_def)
  have 1: "Observation_reset (snd (CartPole_Reset e r1 r2))
     = CartPole_observation_spec (fst (CartPole_Reset e r1 r2))"
    by (simp add: CartPole_Reset_def Let_def g)
  have 2: "Observation d = CartPole_observation_spec e'" if "CartPole_Step e a = Inr (e', d)" for e' d
    using that by (auto simp add: CartPole_Step_validated g split: if_splits)
  show ?thesis
    using 1 2 r l by metis
qed

theorem CartPole_observation_witness:
  "Observation_reset (snd (CartPole_Reset (NewCartPoleEnv DefaultCartPoleSettings) (3/4) (1/2)))
     = [2 / 5, 0, 0, 0]
   \<and> (\<exists>e' d. CartPole_Step (NewCartPoleEnv DefaultCartPoleSettings) [0] = Inr (e', d)
          \<and> Observation d = CartPole_observation_spec e' \<and> length (Observation d) = 4)"
proof -
  let ?e = "NewCartPoleEnv DefaultCartPoleSettings"
  note inst = CartPole_observation[of ?e "3/4" "1/2" "[0]"]
  have "CartPole_observation_spec (fst (CartPole_Reset ?e (3/4) (1/2))) = [2 / 5, 0, 0, 0]"
    by (simp add: CartPole_Reset_def NewCartPoleEnv_def DefaultCartPoleSettings_def Let_def
        CartPole_observation_spec_def clamp_unit_def)
  then have 1: "Observation_reset (snd (CartPole_Reset ?e (3/4) (1/2))) = [2 / 5, 0, 0, 0]"
    using inst by simp
  have v: "valid_action 1 [0]"
    by (simp add: valid_action_def)
  obtain e' d where st: "CartPole_Step ?e [0] = Inr (e', d)"
    using CartPole_Step_valid[OF v] by blast
  then have "Observation d = CartPole_observation_spec e' \<and> length (Observation d) = 4"
    using inst by blast
  then show ?thesis
    using 1 st by blast
qed

text \<open>
  C5. \<open>Step\<close> with a valid action updates the physics first and then decides in this
  order: a cart position outside the interval from -1 to 1 terminates with the reward
  \<open>OutOfBoundsReward\<close>; otherwise a pole angle outside the interval from \<open>-FailAngle\<close> to
  \<open>FailAngle\<close> terminates with the reward \<open>PoleFallReward\<close>; otherwise the episode goes on
  and the reward is \<open>CenteredPerStepReward\<close> minus the magnitude of the cart position.
\<close>

theorem CartPole_termination_priority:
  assumes "valid_action 1 a"
  shows "\<exists>e' d. CartPole_Step e a = Inr (e', d) \<and> e' = CartPole_update e (a ! 0)
           \<and> (if BoxPosition e' \<notin> {-1 .. 1}
               then Terminated d \<and> Reward d = OutOfBoundsReward (Settings e)
               else if PoleRotation e' \<notin> {- FailAngle (Settings e) .. FailAngle (Settings e)}
               then Terminated d \<and> Reward d = PoleFallReward (Settings e)
               else \<not> Terminated d
                    \<and> Reward d = CenteredPerStepReward (Settings e) - \<bar>BoxPosition e'\<bar>)"
proof -
  let ?e' = "CartPole_update e (a ! 0)"
  have s: "Settings ?e' = Settings e" by (rule CartPole_update_Settings)
  have "(if BoxPosition ?e' \<notin> {-1 .. 1}
         then fst (CartPole_failed_reward ?e') \<and> snd (CartPole_failed_reward ?e') = OutOfBoundsReward (Settings e)
         else if PoleRotation ?e' \<notin> {- FailAngle (Settings e) .. FailAngle (Settings e)}
         then fst (CartPole_failed_reward ?e') \<and> snd (CartPole_failed_reward ?e') = PoleFallReward (Settings e)
         else \<not> fst (CartPole_failed_reward ?e')
              \<and> snd (CartPole_failed_reward ?e') = CenteredPerStepReward (Settings e) - \<bar>BoxPosition ?e'\<bar>)"
    unfolding CartPole_failed_reward_def s by (auto simp: Let_def)
  then show ?thesis
    by (simp add: CartPole_Step_valid[OF assms])
qed

lemma CartPole_update_fields:
  "BoxVelocity (CartPole_update e f) =
     (let v = BoxVelocity e + f * Acceleration_setting (Settings e) * TimeStep (Settings e)
      in if v > MaxVelocity (Settings e) then MaxVelocity (Settings e)
         else if v < - MaxVelocity (Settings e) then - MaxVelocity (Settings e) else v)"
  "BoxPosition (CartPole_update e f) =
     BoxPosition e + BoxVelocity (CartPole_update e f) * TimeStep (Settings e)"
  "PoleRotationalVelocity (CartPole_update e f) =
     (let w = PoleRotationalVelocity e
                + (GravityAcceleration (Settings e) * sin (PoleRotation e)
                   + f * cos (PoleRotation e) * TorqueMultiplier (Settings e)) * TimeStep (Settings e)
      in if w > MaxRotationalVelocity (Settings e) then MaxRotationalVelocity (Settings e)
         else if w < - MaxRotationalVelocity (Settings e) then - MaxRotationalVelocity (Settings e)
         else w)"
  "PoleRotation (CartPole_update e f) =
     PoleRotation e + PoleRotationalVelocity (CartPole_update e f) * TimeStep (Settings e)"
  by (simp_all add: CartPole_update_def Let_def)

theorem CartPole_termination_priority_witness:
  "\<exists>e' d. CartPole_Step
       \<lparr> BoxPosition = 999 / 1000, BoxVelocity = 3 / 2, PoleRotation = 3,
         PoleRotationalVelocity = 0,
         Settings = DefaultCartPoleSettings
           \<lparr> GravityAcceleration := 0, TorqueMultiplier := 0,
             MaxRotationalVelocity := 10, FailAngle := 1 \<rparr> \<rparr> [1] = Inr (e', d)
     \<and> BoxPosition e' = 1024 / 1000 \<and> PoleRotation e' = 3
     \<and> Terminated d \<and> Reward d = -1"
proof -
  let ?e = "\<lparr> BoxPosition = 999 / 1000, BoxVelocity = 3 / 2, PoleRotation = 3,
         PoleRotationalVelocity = 0,
         Settings = DefaultCartPoleSettings
           \<lparr> GravityAcceleration := 0, TorqueMultiplier := 0,
             MaxRotationalVelocity := 10, FailAngle := 1 \<rparr> \<rparr>"
  have v: "valid_action 1 [1]" by (simp add: valid_action_def)
  have b: "BoxPosition (CartPole_update ?e 1) = 1024 / 1000"
    by (simp add: CartPole_update_fields Let_def DefaultCartPoleSettings_def)
  have r: "PoleRotation (CartPole_update ?e 1) = 3"
    by (simp add: CartPole_update_fields Let_def DefaultCartPoleSettings_def)
  show ?thesis
    using CartPole_termination_priority[OF v, of ?e] b r
    by (auto simp add: DefaultCartPoleSettings_def)
qed

section \<open>Theorems on ball-push\<close>

lemma Len_nonneg: "0 \<le> Len u"
  by (simp add: Len_def)

lemma Len_zero_iff: "Len u = 0 \<longleftrightarrow> u = V 0 0"
  by (cases u) (simp add: Len_def sum_squares_eq_zero_iff[unfolded power2_eq_square] add_nonneg_eq_0_iff)

lemma Len_pos_iff: "0 < Len u \<longleftrightarrow> u \<noteq> V 0 0"
  using Len_nonneg[of u] Len_zero_iff[of u] by linarith

lemma Len_Scaled: "Len (Scaled u c) = \<bar>c\<bar> * Len u"
proof -
  have "X u * c * (X u * c) + Y u * c * (Y u * c) = c\<^sup>2 * (X u * X u + Y u * Y u)"
    by (simp add: power2_eq_square algebra_simps)
  then show ?thesis
    by (simp add: Len_def Scaled_def real_sqrt_mult)
qed

lemma Len_Unit: "Len (Unit u) = 1"
proof (cases "u = V 0 0")
  case True
  then show ?thesis by (simp add: Unit_def Len_def)
next
  case False
  then have p: "0 < Len u" by (simp add: Len_pos_iff)
  have "\<not> (X u = 0 \<and> Y u = 0)"
    using False by (cases u) simp
  then have "Unit u = Scaled u (1 / Len u)" by (auto simp add: Unit_def)
  then show ?thesis using p by (simp add: Len_Scaled)
qed

lemma Len_axis: "Len (V 0 y) = \<bar>y\<bar>" "Len (V x 0) = \<bar>x\<bar>"
  by (simp_all add: Len_def)

text \<open>
  C3, as amended. \<open>Step\<close> normalises every action that is not the zero vector, whatever
  its magnitude: for a valid action of magnitude above 0 the control vector is the action
  divided by its magnitude, of length 1, and the control force is that unit vector scaled
  by \<open>AgentAcceleration\<close>, of magnitude \<open>\<bar>AgentAcceleration\<bar>\<close>; for the zero action the
  control force is the zero vector.
\<close>

theorem BallPush_control_force_unit:
  assumes "valid_action 2 a"
  shows "(0 < Len (V (a ! 0) (a ! 1)) \<longrightarrow>
            BallPush_agentControlForce e a
              = Scaled (Scaled (V (a ! 0) (a ! 1)) (1 / Len (V (a ! 0) (a ! 1))))
                       (AgentAcceleration (BallPush_Settings e))
            \<and> Len (BallPush_controlVec a) = 1
            \<and> Len (BallPush_agentControlForce e a) = \<bar>AgentAcceleration (BallPush_Settings e)\<bar>)
       \<and> (Len (V (a ! 0) (a ! 1)) = 0 \<longrightarrow> BallPush_agentControlForce e a = V 0 0)"
proof -
  let ?c = "V (a ! 0) (a ! 1)"
  have u: "BallPush_controlVec a = Unit ?c" if "0 < Len ?c"
    using that by (simp add: BallPush_controlVec_def Let_def)
  have s: "Unit ?c = Scaled ?c (1 / Len ?c)" if "0 < Len ?c"
    using that by (auto simp add: Unit_def Len_def)
  have z: "BallPush_agentControlForce e a = V 0 0" if "Len ?c = 0"
  proof -
    have "?c = V 0 0" using that by (simp only: Len_zero_iff)
    then show ?thesis
      using that by (simp add: BallPush_agentControlForce_def BallPush_controlVec_def Let_def Scaled_def)
  qed
  show ?thesis
    using u s z by (simp add: BallPush_agentControlForce_def Len_Scaled Len_Unit)
qed

theorem BallPush_control_force_unit_witness:
  "BallPush_agentControlForce (NewBallPushEnv DefaultBallPushSettings 0 0 0 0) [1/2, 0] = V 20 0
   \<and> Len (BallPush_agentControlForce (NewBallPushEnv DefaultBallPushSettings 0 0 0 0) [1/2, 0]) = 20
   \<and> BallPush_agentControlForce (NewBallPushEnv DefaultBallPushSettings 0 0 0 0) [0, 0] = V 0 0"
proof -
  let ?e = "NewBallPushEnv DefaultBallPushSettings 0 0 0 0"
  have s: "BallPush_Settings ?e = DefaultBallPushSettings"
    by (simp add: NewBallPushEnv_def BallPush_Reset_def Let_def)
  have acc: "AgentAcceleration DefaultBallPushSettings = 20"
    by (simp add: DefaultBallPushSettings_def)
  have v1: "valid_action 2 [1/2, 0]" and v2: "valid_action 2 [0, 0]"
    by (simp_all add: valid_action_def)
  have "BallPush_agentControlForce ?e [1/2, 0] = V 20 0
        \<and> Len (BallPush_agentControlForce ?e [1/2, 0]) = 20"
    using BallPush_control_force_unit[OF v1, of ?e]
    by (simp add: s acc Len_axis Scaled_def)
  moreover have "BallPush_agentControlForce ?e [0, 0] = V 0 0"
    using BallPush_control_force_unit[OF v2, of ?e]
    by (simp add: Len_axis)
  ultimately show ?thesis by (simp add: Len_axis)
qed

text \<open>
  C3 as claimed fails: the valid action \<open>(1/2, 0)\<close> has magnitude 1/2, and with the default
  settings the control force is \<open>(20, 0)\<close>, not the action scaled by \<open>AgentAcceleration\<close>,
  which is \<open>(10, 0)\<close>.
\<close>

theorem BallPush_control_force_counterexample:
  "valid_action 2 [1/2, 0]
   \<and> 0 < Len (V (1/2) 0) \<and> Len (V (1/2) 0) \<le> 1
   \<and> BallPush_agentControlForce (NewBallPushEnv DefaultBallPushSettings 0 0 0 0) [1/2, 0] = V 20 0
   \<and> Scaled (V (1/2) 0)
        (AgentAcceleration (BallPush_Settings (NewBallPushEnv DefaultBallPushSettings 0 0 0 0)))
      = V 10 0
   \<and> BallPush_agentControlForce (NewBallPushEnv DefaultBallPushSettings 0 0 0 0) [1/2, 0]
      \<noteq> Scaled (V (1/2) 0)
           (AgentAcceleration (BallPush_Settings (NewBallPushEnv DefaultBallPushSettings 0 0 0 0)))"
proof -
  let ?e = "NewBallPushEnv DefaultBallPushSettings 0 0 0 0"
  have s: "AgentAcceleration (BallPush_Settings ?e) = 20"
    by (simp add: NewBallPushEnv_def BallPush_Reset_def Let_def DefaultBallPushSettings_def)
  have c: "BallPush_controlVec [1/2, 0] = V 1 0"
    by (simp add: BallPush_controlVec_def Let_def Len_axis Unit_def Scaled_def)
  show ?thesis
    by (simp add: valid_action_def Len_axis BallPush_agentControlForce_def c s Scaled_def)
qed

lemma valid_action_validate: "valid_action 2 a \<Longrightarrow> \<not> (length a \<noteq> 2) \<and> \<not> (\<exists>v\<in>set a. v < -1 \<or> 1 < v)"
  by (auto simp add: valid_action_def)

lemma BallPush_Step_traced_valid:
  assumes "valid_action 2 a"
  shows "BallPush_Step_traced e a =
     Inr (BallPush_integrate (fst (BallPush_constrain e a)),
          \<lparr> Observation = BallPush_getObservation (BallPush_integrate (fst (BallPush_constrain e a))),
            Reward = BallPush_reward (BallPush_integrate (fst (BallPush_constrain e a)))
                       (fst (snd (BallPush_constrain e a))) (snd (snd (BallPush_constrain e a))),
            Terminated = False, Info = [] \<rparr>,
          fst (snd (BallPush_constrain e a)), snd (snd (BallPush_constrain e a)))"
  using valid_action_validate[OF assms]
  by (simp add: BallPush_Step_traced_validated Let_def)

lemma applyForces_frame:
  "HasTouchedBall (BallPush_applyForces e a) = HasTouchedBall e"
  "HasCenteredBall (BallPush_applyForces e a) = HasCenteredBall e"
  "BallPush_Settings (BallPush_applyForces e a) = BallPush_Settings e"
  by (simp_all add: BallPush_applyForces_def Let_def)

lemma agentBoundary_frame:
  "HasTouchedBall (BallPush_agentBoundary e) = HasTouchedBall e"
  "HasCenteredBall (BallPush_agentBoundary e) = HasCenteredBall e"
  "BallPush_Settings (BallPush_agentBoundary e) = BallPush_Settings e"
  "Ball (BallPush_agentBoundary e) = Ball e"
  by (simp_all add: BallPush_agentBoundary_def Let_def)

lemma collide_flags:
  "snd (BallPush_collide e) = (\<not> HasTouchedBall e \<and> 0 < BallPush_ballOverlap e)"
  "HasTouchedBall (fst (BallPush_collide e)) = (HasTouchedBall e \<or> 0 < BallPush_ballOverlap e)"
  "HasCenteredBall (fst (BallPush_collide e)) = HasCenteredBall e"
  "BallPush_Settings (fst (BallPush_collide e)) = BallPush_Settings e"
  by (simp_all add: BallPush_collide_def Let_def split_beta)

lemma ballBoundary_frame:
  "HasTouchedBall (BallPush_ballBoundary e) = HasTouchedBall e"
  "HasCenteredBall (BallPush_ballBoundary e) = HasCenteredBall e"
  "BallPush_Settings (BallPush_ballBoundary e) = BallPush_Settings e"
  "Agent (BallPush_ballBoundary e) = Agent e"
  by (simp_all add: BallPush_ballBoundary_def Let_def)

lemma center_flags:
  "snd (BallPush_center e) = (\<not> HasCenteredBall e \<and> BallInCenter e)"
  "HasCenteredBall (fst (BallPush_center e)) = (HasCenteredBall e \<or> BallInCenter e)"
  "HasTouchedBall (fst (BallPush_center e)) = HasTouchedBall e"
  "BallPush_Settings (fst (BallPush_center e)) = BallPush_Settings e"
  "Agent (fst (BallPush_center e)) = Agent e"
  "Ball (fst (BallPush_center e)) = Ball e"
  by (auto simp add: BallPush_center_def Let_def)

lemma integrate_frame:
  "HasTouchedBall (BallPush_integrate e) = HasTouchedBall e"
  "HasCenteredBall (BallPush_integrate e) = HasCenteredBall e"
  "BallPush_Settings (BallPush_integrate e) = BallPush_Settings e"
  "Agent (BallPush_integrate e) = StepParticle (Agent e)"
  "Ball (BallPush_integrate e) = StepParticle (Ball e)"
  by (simp_all add: BallPush_integrate_def Let_def)

lemma constrain_unfold:
  "BallPush_constrain e a =
     (fst (BallPush_center (BallPush_ballBoundary (fst (BallPush_collide
            (BallPush_agentBoundary (BallPush_applyForces e a)))))),
      snd (BallPush_collide (BallPush_agentBoundary (BallPush_applyForces e a))),
      snd (BallPush_center (BallPush_ballBoundary (fst (BallPush_collide
            (BallPush_agentBoundary (BallPush_applyForces e a)))))))"
  by (simp add: BallPush_constrain_def Let_def split_beta)

lemma constrain_flags:
  "fst (snd (BallPush_constrain e a))
     = (\<not> HasTouchedBall e
        \<and> 0 < BallPush_ballOverlap (BallPush_agentBoundary (BallPush_applyForces e a)))"
  "snd (snd (BallPush_constrain e a))
     = (\<not> HasCenteredBall e
        \<and> BallInCenter (BallPush_ballBoundary (fst (BallPush_collide
              (BallPush_agentBoundary (BallPush_applyForces e a))))))"
  "HasTouchedBall (fst (BallPush_constrain e a))
     = (HasTouchedBall e \<or> fst (snd (BallPush_constrain e a)))"
  "HasCenteredBall (fst (BallPush_constrain e a))
     = (HasCenteredBall e \<or> snd (snd (BallPush_constrain e a)))"
  "BallPush_Settings (fst (BallPush_constrain e a)) = BallPush_Settings e"
  by (auto simp add: constrain_unfold center_flags ballBoundary_frame collide_flags
      agentBoundary_frame applyForces_frame)

lemma reward_split:
  "BallPush_reward e jt jc =
     (if jt then TouchBallReward (BallPush_Settings e) else 0)
     + (if jc then PlaceInCenterReward (BallPush_Settings e) else 0)
     + BallPush_shaping e"
  by (simp add: BallPush_reward_def BallPush_shaping_def Let_def)

lemma BallPush_Steps_one_shot:
  assumes "\<forall>a\<in>set as. valid_action 2 a"
  shows "\<exists>tr. BallPush_Steps e as = Inr tr \<and> length tr = length as
           \<and> length (filter touch_granted tr) \<le> (if HasTouchedBall e then 0 else 1)
           \<and> length (filter center_granted tr) \<le> (if HasCenteredBall e then 0 else 1)
           \<and> (\<forall>r\<in>set tr. BallPush_Settings (fst r) = BallPush_Settings e)"
  using assms
proof (induction as arbitrary: e)
  case Nil
  then show ?case by simp
next
  case (Cons a as)
  let ?c = "BallPush_constrain e a"
  let ?e1 = "BallPush_integrate (fst ?c)"
  have va: "valid_action 2 a" using Cons.prems by simp
  have st: "BallPush_Step_traced e a =
     Inr (?e1, \<lparr> Observation = BallPush_getObservation ?e1,
            Reward = BallPush_reward ?e1 (fst (snd ?c)) (snd (snd ?c)),
            Terminated = False, Info = [] \<rparr>, fst (snd ?c), snd (snd ?c))"
    by (rule BallPush_Step_traced_valid[OF va])
  have f1: "HasTouchedBall ?e1 = (HasTouchedBall e \<or> fst (snd ?c))"
    and f2: "HasCenteredBall ?e1 = (HasCenteredBall e \<or> snd (snd ?c))"
    and f3: "BallPush_Settings ?e1 = BallPush_Settings e"
    by (simp_all add: integrate_frame constrain_flags(3,4,5))
  have g1: "fst (snd ?c) \<longrightarrow> \<not> HasTouchedBall e"
    and g2: "snd (snd ?c) \<longrightarrow> \<not> HasCenteredBall e"
    by (simp_all add: constrain_flags(1,2))
  have "\<exists>tr. BallPush_Steps ?e1 as = Inr tr \<and> length tr = length as
           \<and> length (filter touch_granted tr) \<le> (if HasTouchedBall ?e1 then 0 else 1)
           \<and> length (filter center_granted tr) \<le> (if HasCenteredBall ?e1 then 0 else 1)
           \<and> (\<forall>r\<in>set tr. BallPush_Settings (fst r) = BallPush_Settings ?e1)"
    by (rule Cons.IH) (use Cons.prems in simp)
  then obtain tr where tr: "BallPush_Steps ?e1 as = Inr tr" "length tr = length as"
    "length (filter touch_granted tr) \<le> (if HasTouchedBall ?e1 then 0 else 1)"
    "length (filter center_granted tr) \<le> (if HasCenteredBall ?e1 then 0 else 1)"
    "\<forall>r\<in>set tr. BallPush_Settings (fst r) = BallPush_Settings e"
    unfolding f3 by blast
  have t: "length (filter touch_granted tr) \<le> (if HasTouchedBall e \<or> fst (snd ?c) then 0 else 1)"
    using tr(3) unfolding f1 .
  have c: "length (filter center_granted tr) \<le> (if HasCenteredBall e \<or> snd (snd ?c) then 0 else 1)"
    using tr(4) unfolding f2 .
  have 1: "BallPush_Steps e (a # as) =
     Inr ((?e1, \<lparr> Observation = BallPush_getObservation ?e1,
            Reward = BallPush_reward ?e1 (fst (snd ?c)) (snd (snd ?c)),
            Terminated = False, Info = [] \<rparr>, fst (snd ?c), snd (snd ?c)) # tr)"
    by (simp add: st tr(1))
  have 2: "length (filter touch_granted ((?e1, d, fst (snd ?c), snd (snd ?c)) # tr))
             \<le> (if HasTouchedBall e then 0 else 1)" for d
    using t g1 by (auto simp add: touch_granted_def split: if_splits)
  have 3: "length (filter center_granted ((?e1, d, fst (snd ?c), snd (snd ?c)) # tr))
             \<le> (if HasCenteredBall e then 0 else 1)" for d
    using c g2 by (auto simp add: center_granted_def split: if_splits)
  show ?case
    unfolding 1 using 2 3 tr(2,5) f3 by simp
qed

lemma BallPush_Steps_reward:
  "BallPush_Steps e as = Inr tr \<Longrightarrow>
   \<forall>r\<in>set tr. Reward (fst (snd r)) =
       (if touch_granted r then TouchBallReward (BallPush_Settings (fst r)) else 0)
       + (if center_granted r then PlaceInCenterReward (BallPush_Settings (fst r)) else 0)
       + BallPush_shaping (fst r)"
proof (induction as arbitrary: e tr)
  case Nil
  then show ?case by simp
next
  case (Cons a as)
  from Cons.prems obtain e1 d jt jc rest where
    st: "BallPush_Step_traced e a = Inr (e1, d, jt, jc)"
    and rs: "BallPush_Steps e1 as = Inr rest" and tr: "tr = (e1, d, jt, jc) # rest"
    by (auto split: sum.splits)
  have "Reward d = BallPush_reward e1 jt jc"
    using st by (auto simp add: BallPush_Step_traced_validated Let_def split: if_splits)
  then have "Reward d = (if jt then TouchBallReward (BallPush_Settings e1) else 0)
       + (if jc then PlaceInCenterReward (BallPush_Settings e1) else 0)
       + BallPush_shaping e1"
    by (simp only: reward_split)
  then show ?case
    using Cons.IH[OF rs] by (simp add: tr touch_granted_def center_granted_def)
qed

lemma Reset_flags:
  "HasTouchedBall (fst (BallPush_Reset e r1 r2 r3 r4)) = False"
  "HasCenteredBall (fst (BallPush_Reset e r1 r2 r3 r4)) = False"
  "BallPush_Settings (fst (BallPush_Reset e r1 r2 r3 r4)) = BallPush_Settings e"
  by (simp_all add: BallPush_Reset_def Let_def)

text \<open>
  C9. In an episode, the steps after a \<open>Reset\<close> with valid actions, at most one step adds
  \<open>TouchBallReward\<close> to its reward and at most one step adds \<open>PlaceInCenterReward\<close>: the
  reward of every step is the two bonuses that its flags grant plus the shaping terms.
  \<open>Reset\<close> clears both flags, and the first step of the next episode grants the touch
  bonus exactly when agent and ball overlap, and the center bonus exactly when the ball is
  in the target.
\<close>

theorem BallPush_one_shot_bonuses:
  assumes "\<forall>a\<in>set as. valid_action 2 a"
  shows "(\<exists>tr. BallPush_Steps (fst (BallPush_Reset e r1 r2 r3 r4)) as = Inr tr
            \<and> length tr = length as
            \<and> length (filter touch_granted tr) \<le> 1
            \<and> length (filter center_granted tr) \<le> 1
            \<and> (\<forall>r\<in>set tr. Reward (fst (snd r)) =
                  (if touch_granted r then TouchBallReward (BallPush_Settings e) else 0)
                  + (if center_granted r then PlaceInCenterReward (BallPush_Settings e) else 0)
                  + BallPush_shaping (fst r)))
       \<and> \<not> HasTouchedBall (fst (BallPush_Reset e r1 r2 r3 r4))
       \<and> \<not> HasCenteredBall (fst (BallPush_Reset e r1 r2 r3 r4))
       \<and> (\<forall>a. valid_action 2 a \<longrightarrow>
             (\<exists>e' d jt jc. BallPush_Step_traced (fst (BallPush_Reset e r1 r2 r3 r4)) a
                             = Inr (e', d, jt, jc)
                \<and> jt = (0 < BallPush_ballOverlap (BallPush_agentBoundary
                            (BallPush_applyForces (fst (BallPush_Reset e r1 r2 r3 r4)) a)))
                \<and> jc = BallInCenter (BallPush_ballBoundary (fst (BallPush_collide
                          (BallPush_agentBoundary
                            (BallPush_applyForces (fst (BallPush_Reset e r1 r2 r3 r4)) a)))))))"
proof -
  let ?e0 = "fst (BallPush_Reset e r1 r2 r3 r4)"
  have f: "\<not> HasTouchedBall ?e0" "\<not> HasCenteredBall ?e0"
    and s: "BallPush_Settings ?e0 = BallPush_Settings e"
    by (simp_all add: Reset_flags)
  obtain tr where tr: "BallPush_Steps ?e0 as = Inr tr" "length tr = length as"
    "length (filter touch_granted tr) \<le> (if HasTouchedBall ?e0 then 0 else 1)"
    "length (filter center_granted tr) \<le> (if HasCenteredBall ?e0 then 0 else 1)"
    "\<forall>r\<in>set tr. BallPush_Settings (fst r) = BallPush_Settings ?e0"
    using BallPush_Steps_one_shot[OF assms, of ?e0] by blast
  have rw: "\<forall>r\<in>set tr. Reward (fst (snd r)) =
                  (if touch_granted r then TouchBallReward (BallPush_Settings e) else 0)
                  + (if center_granted r then PlaceInCenterReward (BallPush_Settings e) else 0)
                  + BallPush_shaping (fst r)"
    using BallPush_Steps_reward[OF tr(1)] tr(5) unfolding s by simp
  have 1: "\<exists>tr. BallPush_Steps ?e0 as = Inr tr
            \<and> length tr = length as
            \<and> length (filter touch_granted tr) \<le> 1
            \<and> length (filter center_granted tr) \<le> 1
            \<and> (\<forall>r\<in>set tr. Reward (fst (snd r)) =
                  (if touch_granted r then TouchBallReward (BallPush_Settings e) else 0)
                  + (if center_granted r then PlaceInCenterReward (BallPush_Settings e) else 0)
                  + BallPush_shaping (fst r))"
    using tr(1,2,3,4) rw f by auto
  have 2: "\<exists>e' d jt jc. BallPush_Step_traced ?e0 a = Inr (e', d, jt, jc)
                \<and> jt = (0 < BallPush_ballOverlap (BallPush_agentBoundary (BallPush_applyForces ?e0 a)))
                \<and> jc = BallInCenter (BallPush_ballBoundary (fst (BallPush_collide
                          (BallPush_agentBoundary (BallPush_applyForces ?e0 a)))))"
    if va: "valid_action 2 a" for a
    using f by (simp add: BallPush_Step_traced_valid[OF va] constrain_flags(1,2))
  show ?thesis
    using 1 2 f by blast
qed

theorem BallPush_one_shot_bonuses_witness:
  "\<exists>tr. BallPush_Steps (fst (BallPush_Reset (NewBallPushEnv DefaultBallPushSettings 0 0 0 0)
                               (1/2) 0 (1/2) 0)) [[0, 1], [0, 1], [1, 0]] = Inr tr
     \<and> length tr = 3
     \<and> length (filter touch_granted tr) \<le> 1
     \<and> length (filter center_granted tr) \<le> 1"
proof -
  have v: "\<forall>a\<in>set [[0, 1], [0, 1], [1, 0::real]]. valid_action 2 a"
    by (simp add: valid_action_def)
  show ?thesis
    using BallPush_one_shot_bonuses[OF v, of "NewBallPushEnv DefaultBallPushSettings 0 0 0 0"
        "1/2" 0 "1/2" 0]
    by auto
qed

lemma ballBoundary_bound:
  assumes "BallRadius (BallPush_Settings e) \<le> BoundaryRadius (BallPush_Settings e)"
  shows "Len (Position (Ball (BallPush_ballBoundary e)))
           \<le> BoundaryRadius (BallPush_Settings e) - BallRadius (BallPush_Settings e)"
  using assms
  by (simp add: BallPush_ballBoundary_def Let_def Position_def SlideToPosition_def
      Len_Scaled Len_Unit)

lemma agentBoundary_bound:
  assumes "AgentRadius (BallPush_Settings e) \<le> BoundaryRadius (BallPush_Settings e)"
  shows "Len (Position (Agent (BallPush_agentBoundary e)))
           \<le> BoundaryRadius (BallPush_Settings e) - AgentRadius (BallPush_Settings e)"
  using assms
  by (simp add: BallPush_agentBoundary_def Let_def Position_def SlideToPosition_def
      Len_Scaled Len_Unit)

lemma collide_no_overlap: "BallPush_ballOverlap e \<le> 0 \<Longrightarrow> fst (BallPush_collide e) = e"
  by (simp add: BallPush_collide_def Let_def)

lemma BallPush_Step_valid:
  assumes "valid_action 2 a"
  shows "\<exists>d. BallPush_Step e a = Inr (BallPush_integrate (fst (BallPush_constrain e a)), d)"
  by (simp add: BallPush_Step_def BallPush_Step_traced_valid[OF assms])

text \<open>
  C2, as amended. \<open>Step\<close> clamps before it integrates, so what is contained is the position
  from which each particle is integrated, which after \<open>Step\<close> is its previous position:
  the ball's is within \<open>BoundaryRadius - BallRadius\<close> of the center when the ball fits
  in the boundary, and the agent's is within \<open>BoundaryRadius - AgentRadius\<close> when the
  agent fits in the boundary and the collision with the ball did not move it in this
  step.
\<close>

theorem BallPush_contained_before_integration:
  assumes "valid_action 2 a"
  shows "\<exists>e' d. BallPush_Step e a = Inr (e', d)
           \<and> previousPosition (Ball e') = Position (Ball (fst (BallPush_constrain e a)))
           \<and> previousPosition (Agent e') = Position (Agent (fst (BallPush_constrain e a)))
           \<and> (BallRadius (BallPush_Settings e) \<le> BoundaryRadius (BallPush_Settings e) \<longrightarrow>
                Len (previousPosition (Ball e'))
                  \<le> BoundaryRadius (BallPush_Settings e) - BallRadius (BallPush_Settings e))
           \<and> (AgentRadius (BallPush_Settings e) \<le> BoundaryRadius (BallPush_Settings e)
                \<and> BallPush_ballOverlap (BallPush_agentBoundary (BallPush_applyForces e a)) \<le> 0 \<longrightarrow>
                Len (previousPosition (Agent e'))
                  \<le> BoundaryRadius (BallPush_Settings e) - AgentRadius (BallPush_Settings e))"
proof -
  let ?f = "BallPush_applyForces e a"
  let ?g = "BallPush_agentBoundary ?f"
  let ?h = "fst (BallPush_collide ?g)"
  let ?c = "fst (BallPush_constrain e a)"
  let ?e' = "BallPush_integrate ?c"
  have c: "?c = fst (BallPush_center (BallPush_ballBoundary ?h))"
    by (simp add: constrain_unfold)
  have sh: "BallPush_Settings ?h = BallPush_Settings e"
    by (simp add: collide_flags agentBoundary_frame applyForces_frame)
  have sf: "BallPush_Settings ?f = BallPush_Settings e"
    by (simp add: applyForces_frame)
  obtain d where st: "BallPush_Step e a = Inr (?e', d)"
    using BallPush_Step_valid[OF assms] by blast
  have pb: "previousPosition (Ball ?e') = Position (Ball ?c)"
    and pa: "previousPosition (Agent ?e') = Position (Agent ?c)"
    by (simp_all add: integrate_frame StepParticle_frame Position_def)
  have b: "Len (Position (Ball ?c))
             \<le> BoundaryRadius (BallPush_Settings e) - BallRadius (BallPush_Settings e)"
    if "BallRadius (BallPush_Settings e) \<le> BoundaryRadius (BallPush_Settings e)"
    using ballBoundary_bound[of ?h] that unfolding sh c by (simp add: center_flags)
  have ag: "Len (Position (Agent ?c))
             \<le> BoundaryRadius (BallPush_Settings e) - AgentRadius (BallPush_Settings e)"
    if r: "AgentRadius (BallPush_Settings e) \<le> BoundaryRadius (BallPush_Settings e)"
      and o: "BallPush_ballOverlap ?g \<le> 0"
  proof -
    have "?h = ?g" by (rule collide_no_overlap[OF o])
    then have "Agent ?c = Agent ?g"
      unfolding c by (simp add: center_flags ballBoundary_frame)
    then show ?thesis
      using agentBoundary_bound[of ?f] r unfolding sf by simp
  qed
  show ?thesis
    using st pb pa b ag by (metis (no_types, lifting))
qed

text \<open>The start of the run below, and the state in which its first step integrates.\<close>

lemma wide_agent_start:
  "NewBallPushEnv (DefaultBallPushSettings\<lparr>AgentRadius := 25 / 2\<rparr>) (9999 / 10000) 0 0 0 =
     \<lparr> Agent = \<lparr> currentPosition = V 0 (29997 / 800), previousPosition = V 0 (29997 / 800),
                 mass = 1, currentForce = V 0 0, currentImpulse = V 0 0,
                 recentVelocity = V 0 0, recentAcceleration = V 0 0, dt = 1 / 60 \<rparr>,
       Ball = \<lparr> currentPosition = V 0 0, previousPosition = V 0 0,
                mass = 1, currentForce = V 0 0, currentImpulse = V 0 0,
                recentVelocity = V 0 0, recentAcceleration = V 0 0, dt = 1 / 60 \<rparr>,
       HasTouchedBall = False, HasCenteredBall = False,
       BallPush_Settings = DefaultBallPushSettings\<lparr>AgentRadius := 25 / 2\<rparr> \<rparr>"
  by (simp add: NewBallPushEnv_def BallPush_Reset_def Let_def NewVerletParticle_def ZV_def
      SlideToPosition_def SetVelocity_def Rotated_def Scaled_def Vec_Sub_def
      DefaultBallPushSettings_def)

lemma wide_agent_constrain:
  "fst (BallPush_constrain
     (NewBallPushEnv (DefaultBallPushSettings\<lparr>AgentRadius := 25 / 2\<rparr>) (9999 / 10000) 0 0 0) [0, 1]) =
     \<lparr> Agent = \<lparr> currentPosition = V 0 (29997 / 800), previousPosition = V 0 (29997 / 800),
                 mass = 1, currentForce = V 0 20, currentImpulse = V 0 0,
                 recentVelocity = V 0 0, recentAcceleration = V 0 0, dt = 1 / 60 \<rparr>,
       Ball = \<lparr> currentPosition = V 0 0, previousPosition = V 0 0,
                mass = 1, currentForce = V 0 0, currentImpulse = V 0 0,
                recentVelocity = V 0 0, recentAcceleration = V 0 0, dt = 1 / 60 \<rparr>,
       HasTouchedBall = False, HasCenteredBall = True,
       BallPush_Settings = DefaultBallPushSettings\<lparr>AgentRadius := 25 / 2\<rparr> \<rparr>"
  unfolding wide_agent_start
  by (simp add: constrain_unfold BallPush_applyForces_def BallPush_agentControlForce_def
      BallPush_controlVec_def BallPush_agentBoundary_def BallPush_collide_def
      BallPush_ballOverlap_def BallPush_ballBoundary_def BallPush_center_def BallInCenter_def
      Let_def Len_axis Unit_def Scaled_def Vec_Sub_def Vec_Add_def Velocity_def Position_def
      ApplyForce_def DefaultBallPushSettings_def)

text \<open>
  C2 as claimed fails. With the default settings except an agent radius of 12.5, the limit
  of the agent is 37.5. A new environment whose first draw is 0.9999 has the agent at
  \<open>(0, 37.49625)\<close>, inside the limit; \<open>Step\<close> with the action \<open>(0, 1)\<close> finds nothing to
  clamp and integrates the agent to \<open>(0, 270013/7200)\<close>, beyond the limit \<open>270000/7200\<close>.
\<close>

theorem BallPush_containment_counterexample:
  "valid_action 2 [0, 1]
   \<and> \<not> isl (BallPush_Step
        (NewBallPushEnv (DefaultBallPushSettings\<lparr>AgentRadius := 25 / 2\<rparr>) (9999 / 10000) 0 0 0)
        [0, 1])
   \<and> Position (Agent (fst (projr (BallPush_Step
        (NewBallPushEnv (DefaultBallPushSettings\<lparr>AgentRadius := 25 / 2\<rparr>) (9999 / 10000) 0 0 0)
        [0, 1])))) = V 0 (270013 / 7200)
   \<and> BoundaryRadius (DefaultBallPushSettings\<lparr>AgentRadius := 25 / 2\<rparr>)
       - AgentRadius (DefaultBallPushSettings\<lparr>AgentRadius := 25 / 2\<rparr>) = 270000 / 7200
   \<and> Len (V 0 (270013 / 7200))
       > BoundaryRadius (DefaultBallPushSettings\<lparr>AgentRadius := 25 / 2\<rparr>)
         - AgentRadius (DefaultBallPushSettings\<lparr>AgentRadius := 25 / 2\<rparr>)"
proof -
  let ?e0 = "NewBallPushEnv (DefaultBallPushSettings\<lparr>AgentRadius := 25 / 2\<rparr>) (9999 / 10000) 0 0 0"
  have v: "valid_action 2 [0, 1]"
    by (simp add: valid_action_def)
  have st: "BallPush_Step ?e0 [0, 1]
      = Inr (BallPush_integrate (fst (BallPush_constrain ?e0 [0, 1])),
             \<lparr> Observation = BallPush_getObservation (BallPush_integrate (fst (BallPush_constrain ?e0 [0, 1]))),
               Reward = BallPush_reward (BallPush_integrate (fst (BallPush_constrain ?e0 [0, 1])))
                          (fst (snd (BallPush_constrain ?e0 [0, 1])))
                          (snd (snd (BallPush_constrain ?e0 [0, 1]))),
               Terminated = False, Info = [] \<rparr>)"
    by (simp add: BallPush_Step_def BallPush_Step_traced_valid[OF v])
  have p: "Position (Agent (BallPush_integrate (fst (BallPush_constrain ?e0 [0, 1]))))
             = V 0 (270013 / 7200)"
    unfolding wide_agent_constrain
    by (simp add: BallPush_integrate_def Let_def StepParticle_def Position_def ZV_def
        Scaled_def Vec_Sub_def Vec_Add_def)
  show ?thesis
    unfolding st using v p by (simp add: Len_axis DefaultBallPushSettings_def)
qed

theorem BallPush_contained_before_integration_witness:
  "\<exists>e' d. BallPush_Step (NewBallPushEnv DefaultBallPushSettings (1/2) 0 0 0) [0, 1] = Inr (e', d)
     \<and> Len (previousPosition (Ball e')) \<le> 48
     \<and> Len (previousPosition (Agent e')) \<le> 49"
proof -
  let ?e0 = "NewBallPushEnv DefaultBallPushSettings (1/2) 0 0 0"
  have v: "valid_action 2 [0, 1]"
    by (simp add: valid_action_def)
  have s: "BallPush_Settings ?e0 = DefaultBallPushSettings"
    by (simp add: NewBallPushEnv_def BallPush_Reset_def Let_def)
  have r: "BallRadius DefaultBallPushSettings = 2" "AgentRadius DefaultBallPushSettings = 1"
    "BoundaryRadius DefaultBallPushSettings = 50"
    by (simp_all add: DefaultBallPushSettings_def)
  have pa: "Position (Agent ?e0) = V 0 (75 / 4)" and pb: "Position (Ball ?e0) = V 0 0"
    by (simp_all add: NewBallPushEnv_def BallPush_Reset_def Let_def NewVerletParticle_def ZV_def
        SlideToPosition_def SetVelocity_def Rotated_def Position_def r)
  have f: "Position (Agent (BallPush_applyForces ?e0 [0, 1])) = V 0 (75 / 4)"
    "Position (Ball (BallPush_applyForces ?e0 [0, 1])) = V 0 0"
    "BallPush_Settings (BallPush_applyForces ?e0 [0, 1]) = DefaultBallPushSettings"
    using pa pb s by (simp_all add: BallPush_applyForces_def Let_def ApplyForce_def Position_def)
  have g: "Position (Agent (BallPush_agentBoundary (BallPush_applyForces ?e0 [0, 1]))) = V 0 (75 / 4)"
    "Position (Ball (BallPush_agentBoundary (BallPush_applyForces ?e0 [0, 1]))) = V 0 0"
    "BallPush_Settings (BallPush_agentBoundary (BallPush_applyForces ?e0 [0, 1])) = DefaultBallPushSettings"
    using f by (simp_all add: BallPush_agentBoundary_def Let_def Len_axis r)
  have o: "BallPush_ballOverlap (BallPush_agentBoundary (BallPush_applyForces ?e0 [0, 1])) \<le> 0"
    by (simp add: BallPush_ballOverlap_def g r Vec_Sub_def Len_axis)
  show ?thesis
    using BallPush_contained_before_integration[OF v, of ?e0] o
    unfolding s r by auto
qed

text \<open>
  The same happens with the default settings, where the limit of the agent is 49. A new
  environment whose draws are 74/75, 0, 49/50 and 0 has the agent at \<open>(0, 37)\<close> and the
  ball at \<open>(0, 36.75)\<close>, overlapping. The first step slides the two apart, which the
  integration reads as a velocity; nine steps with the action \<open>(0, 1)\<close> return the agent
  at a distance above 49.8.
\<close>

lemma BallPush_run_valid:
  assumes "valid_action 2 a"
  shows "BallPush_run e (a # as) = BallPush_run (BallPush_integrate (fst (BallPush_constrain e a))) as"
  by (simp add: BallPush_Step_def BallPush_Step_traced_valid[OF assms])

lemma BallPush_default_run_leaves_boundary:
  "\<not> isl (BallPush_run (NewBallPushEnv DefaultBallPushSettings (74 / 75) 0 (49 / 50) 0)
            (replicate 9 [0, 1]))
   \<and> Position (Agent (projr (BallPush_run
         (NewBallPushEnv DefaultBallPushSettings (74 / 75) 0 (49 / 50) 0) (replicate 9 [0, 1]))))
       = V 0 (313360751455918807 / 6291456000000000)
   \<and> BoundaryRadius DefaultBallPushSettings - AgentRadius DefaultBallPushSettings
       < Len (V 0 (313360751455918807 / 6291456000000000))"
proof -
  have v: "valid_action 2 [0, 1]"
    by (simp add: valid_action_def)
  have r: "replicate 9 [0, 1::real]
             = [[0, 1], [0, 1], [0, 1], [0, 1], [0, 1], [0, 1], [0, 1], [0, 1], [0, 1]]"
    by (simp add: eval_nat_numeral)
  have b: "BoundaryRadius DefaultBallPushSettings - AgentRadius DefaultBallPushSettings
       < Len (V 0 (313360751455918807 / 6291456000000000))"
    by (simp add: Len_axis DefaultBallPushSettings_def)
  have "\<not> isl (BallPush_run (NewBallPushEnv DefaultBallPushSettings (74 / 75) 0 (49 / 50) 0)
            (replicate 9 [0, 1]))
   \<and> Position (Agent (projr (BallPush_run
         (NewBallPushEnv DefaultBallPushSettings (74 / 75) 0 (49 / 50) 0) (replicate 9 [0, 1]))))
       = V 0 (313360751455918807 / 6291456000000000)"
    unfolding r
    by (simp add: BallPush_run_valid[OF v] NewBallPushEnv_def BallPush_Reset_def Let_def
        NewVerletParticle_def ZV_def SlideToPosition_def SetVelocity_def Rotated_def Scaled_def
        Vec_Sub_def DefaultBallPushSettings_def constrain_unfold BallPush_applyForces_def
        BallPush_agentControlForce_def BallPush_controlVec_def BallPush_agentBoundary_def
        BallPush_collide_def BallPush_ballOverlap_def BallPush_ballBoundary_def
        BallPush_center_def BallInCenter_def BallPush_integrate_def StepParticle_def
        Len_axis Unit_def Vec_Add_def Velocity_def Position_def ApplyForce_def
        del: BallPush_run.simps(2))
  then show ?thesis
    using b by simp
qed

end
